theory Spec2Isabelle
  imports Main "HOL-Library.Word"
begin

section \<open>JavaScript values, exceptions and strings\<close>

text \<open>
  A thrown JavaScript exception is a value: every operation of the source that can
  throw returns \<open>js_error + 'a\<close>, with \<open>Inl\<close> the exception. Strings are byte
  lists (UTF-8), so the emoji of the source are written as their bytes.
\<close>

datatype js_error =
    Error string
  | TypeError string
  | RangeError string
  | SyntaxError string
  | HttpError string

fun error_message :: "js_error \<Rightarrow> string" where
  "error_message (Error m) = m"
| "error_message (TypeError m) = m"
| "error_message (RangeError m) = m"
| "error_message (SyntaxError m) = m"
| "error_message (HttpError m) = m"

text \<open>\<^verbatim>\<open>try { body } catch (error) { handler }\<close>\<close>

definition try_catch :: "js_error + 'a \<Rightarrow> (js_error \<Rightarrow> js_error + 'a) \<Rightarrow> js_error + 'a" where
  "try_catch body handler = (case body of Inl e \<Rightarrow> handler e | Inr v \<Rightarrow> Inr v)"

text \<open>\<^verbatim>\<open>String.prototype.startsWith\<close> and \<^verbatim>\<open>String.prototype.includes\<close>.\<close>

fun startsWith :: "string \<Rightarrow> string \<Rightarrow> bool" where
  "startsWith s [] = True"
| "startsWith [] (p # ps) = False"
| "startsWith (c # cs) (p # ps) = (c = p \<and> startsWith cs ps)"

fun includes_str :: "string \<Rightarrow> string \<Rightarrow> bool" where
  "includes_str [] sub = (sub = [])"
| "includes_str (c # cs) sub = (startsWith (c # cs) sub \<or> includes_str cs sub)"

text \<open>JavaScript truthiness of an optional string: \<^verbatim>\<open>undefined\<close> and \<^verbatim>\<open>''\<close> are falsy.\<close>

fun truthy :: "string option \<Rightarrow> bool" where
  "truthy None = False"
| "truthy (Some s) = (s \<noteq> [])"

section \<open>The Node.js runtime the program calls into\<close>

text \<open>
  The filesystem, \<^verbatim>\<open>path\<close> and \<^verbatim>\<open>JSON.parse\<close> are not part of the repository; they are
  parameters of the model. \<open>JSON_parse\<close> yields a rule set, the shape the rule files
  have (README, "Configuration"). \<open>dirname\<close> is \<^verbatim>\<open>__dirname\<close> and \<open>now_iso\<close> is
  \<^verbatim>\<open>new Date().toISOString()\<close>.
\<close>

record namespace_rules =
  requiredFiles :: "string list option"
  prohibitedFiles :: "string list option"
  prohibitedFolders :: "string list option"
  gitignoreRules :: "string list option"

type_synonym rule_set = "string \<rightharpoonup> namespace_rules"

record runtime =
  existsSync :: "string \<Rightarrow> bool"
  readdirSync :: "string \<Rightarrow> js_error + string list"
  readFileSync :: "string \<Rightarrow> js_error + string"
  statSync_isDirectory :: "string \<Rightarrow> js_error + bool"
  path_join :: "string list \<Rightarrow> string"
  path_basename :: "string \<Rightarrow> string"
  JSON_parse :: "string \<Rightarrow> js_error + rule_set"
  dirname :: string
  now_iso :: string

section \<open>CodeReviewer: rule loading and project type\<close>

definition empty_namespace :: namespace_rules where
  "empty_namespace = \<lparr> requiredFiles = None, prohibitedFiles = None,
     prohibitedFolders = None, gitignoreRules = None \<rparr>"

definition rulesPath :: "runtime \<Rightarrow> string \<Rightarrow> string" where
  "rulesPath rt projectType =
     path_join rt [dirname rt, ''..'', ''rules'', projectType @ ''-rules.json'']"

definition generalRulesPath :: "runtime \<Rightarrow> string" where
  "generalRulesPath rt = path_join rt [dirname rt, ''..'', ''rules'', ''general-rules.json'']"

text \<open>\<^verbatim>\<open>JSON.parse(fs.readFileSync(p, 'utf8'))\<close>\<close>

definition read_json :: "runtime \<Rightarrow> string \<Rightarrow> js_error + rule_set" where
  "read_json rt p = (case readFileSync rt p of Inl e \<Rightarrow> Inl e | Inr txt \<Rightarrow> JSON_parse rt txt)"

text \<open>The general rules are loaded first: \<^verbatim>\<open>rules = { ...generalRules }\<close>.\<close>

definition load_general :: "runtime \<Rightarrow> js_error + rule_set" where
  "load_general rt =
     (if existsSync rt (generalRulesPath rt)
      then (case read_json rt (generalRulesPath rt) of
              Inl e \<Rightarrow> Inl e
            | Inr generalRules \<Rightarrow> Inr (Map.empty ++ generalRules))
      else Inr Map.empty)"

text \<open>Then the project's: \<^verbatim>\<open>rules = { ...rules, ...projectRules }\<close>.\<close>

definition load_project :: "runtime \<Rightarrow> string \<Rightarrow> rule_set \<Rightarrow> js_error + rule_set" where
  "load_project rt projectType rules =
     (if existsSync rt (rulesPath rt projectType)
      then (case read_json rt (rulesPath rt projectType) of
              Inl e \<Rightarrow> Inl e
            | Inr projectRules \<Rightarrow> Inr (rules ++ projectRules))
      else Inr rules)"

definition loadRules :: "runtime \<Rightarrow> string \<Rightarrow> js_error + rule_set" where
  "loadRules rt projectType =
     try_catch
       (case load_general rt of
          Inl e \<Rightarrow> Inl e
        | Inr rules \<Rightarrow> load_project rt projectType rules)
       (\<lambda>error. Inr [''general'' \<mapsto> empty_namespace])"

definition detectProjectType :: "runtime \<Rightarrow> string \<Rightarrow> js_error + string" where
  "detectProjectType rt projectPath =
     try_catch
       (case readdirSync rt projectPath of
          Inl e \<Rightarrow> Inl e
        | Inr files \<Rightarrow>
            if ''package.json'' \<in> set files then Inr ''nodejs''
            else if ''requirements.txt'' \<in> set files \<or> ''setup.py'' \<in> set files
                    \<or> ''pyproject.toml'' \<in> set files then Inr ''python''
            else Inr ''general'')
       (\<lambda>error. Inr ''general'')"


section \<open>Findings and analyzer results\<close>

record finding =
  rule :: string
  message :: string
  suggestion :: "string option"

text \<open>What an analyzer's \<^verbatim>\<open>analyze\<close> returns: it has no \<^verbatim>\<open>error\<close> property.\<close>

record analyzer_result =
  analyzer :: string
  passed :: "finding list"
  failed :: "finding list"
  warnings :: "finding list"

text \<open>An entry of \<^verbatim>\<open>results.analyzers\<close>: an analyzer's result, or the entry pushed by the
  \<^verbatim>\<open>catch\<close> of \<^verbatim>\<open>analyzeProject\<close>, which has \<^verbatim>\<open>error\<close>.\<close>

record analysis_result = analyzer_result +
  error :: "string option"

definition new_results :: "string \<Rightarrow> analyzer_result" where
  "new_results nm = \<lparr> analyzer = nm, passed = [], failed = [], warnings = [] \<rparr>"

definition push_passed :: "finding \<Rightarrow> analyzer_result \<Rightarrow> analyzer_result" where
  "push_passed f results = results\<lparr> passed := passed results @ [f] \<rparr>"

definition push_failed :: "finding \<Rightarrow> analyzer_result \<Rightarrow> analyzer_result" where
  "push_failed f results = results\<lparr> failed := failed results @ [f] \<rparr>"

definition push_warning :: "finding \<Rightarrow> analyzer_result \<Rightarrow> analyzer_result" where
  "push_warning f results = results\<lparr> warnings := warnings results @ [f] \<rparr>"

text \<open>\<^verbatim>\<open>xs.forEach(x => ...)\<close> over a body that may throw: the first exception ends the loop.\<close>

fun forEach :: "('a \<Rightarrow> 's \<Rightarrow> js_error + 's) \<Rightarrow> 'a list \<Rightarrow> 's \<Rightarrow> js_error + 's" where
  "forEach body [] s = Inr s"
| "forEach body (x # xs) s =
     (case body x s of Inl e \<Rightarrow> Inl e | Inr s' \<Rightarrow> forEach body xs s')"

subsection \<open>The emoji of the messages, as UTF-8 bytes\<close>

definition cross_mark :: string where
  "cross_mark = [CHR 0xE2, CHR 0x9D, CHR 0x8C]"

definition check_mark :: string where
  "check_mark = [CHR 0xE2, CHR 0x9C, CHR 0x85]"

definition warning_sign :: string where
  "warning_sign = [CHR 0xE2, CHR 0x9A, CHR 0xA0, CHR 0xEF, CHR 0xB8, CHR 0x8F]"

definition light_bulb :: string where
  "light_bulb = [CHR 0xF0, CHR 0x9F, CHR 0x92, CHR 0xA1]"

definition robot_face :: string where
  "robot_face = [CHR 0xF0, CHR 0x9F, CHR 0xA4, CHR 0x96]"

definition file_folder :: string where
  "file_folder = [CHR 0xF0, CHR 0x9F, CHR 0x93, CHR 0x81]"

definition wrench :: string where
  "wrench = [CHR 0xF0, CHR 0x9F, CHR 0x94, CHR 0xA7]"

definition bar_chart :: string where
  "bar_chart = [CHR 0xF0, CHR 0x9F, CHR 0x93, CHR 0x8A]"

definition books :: string where
  "books = [CHR 0xF0, CHR 0x9F, CHR 0x93, CHR 0x9A]"

definition clipboard :: string where
  "clipboard = [CHR 0xF0, CHR 0x9F, CHR 0x93, CHR 0x8B]"

definition arrows_cycle :: string where
  "arrows_cycle = [CHR 0xF0, CHR 0x9F, CHR 0x94, CHR 0x84]"

definition apos :: string where
  "apos = [CHR 0x27]"

definition newline :: string where
  "newline = [CHR 0x0A]"

section \<open>GitignoreAnalyzer\<close>

text \<open>\<^verbatim>\<open>s.split('\n')\<close>\<close>

fun split_lines :: "string \<Rightarrow> string list" where
  "split_lines [] = [[]]"
| "split_lines (c # cs) =
     (if c = CHR 0x0A then [] # split_lines cs
      else (case split_lines cs of [] \<Rightarrow> [[c]] | l # ls \<Rightarrow> (c # l) # ls))"

text \<open>
  \<^verbatim>\<open>String.prototype.trim\<close> removes the white space and line terminators of ECMAScript
  from both ends; here they are in UTF-8: TAB, LF, VT, FF, CR, SP, U+00A0, U+1680,
  U+2000 to U+200A, U+2028, U+2029, U+202F, U+205F, U+3000 and U+FEFF.
\<close>

definition js_whitespace :: "string list" where
  "js_whitespace =
     [[CHR 0x09], [CHR 0x0A], [CHR 0x0B], [CHR 0x0C], [CHR 0x0D], [CHR 0x20],
      [CHR 0xC2, CHR 0xA0], [CHR 0xE1, CHR 0x9A, CHR 0x80],
      [CHR 0xE2, CHR 0x80, CHR 0x80], [CHR 0xE2, CHR 0x80, CHR 0x81],
      [CHR 0xE2, CHR 0x80, CHR 0x82], [CHR 0xE2, CHR 0x80, CHR 0x83],
      [CHR 0xE2, CHR 0x80, CHR 0x84], [CHR 0xE2, CHR 0x80, CHR 0x85],
      [CHR 0xE2, CHR 0x80, CHR 0x86], [CHR 0xE2, CHR 0x80, CHR 0x87],
      [CHR 0xE2, CHR 0x80, CHR 0x88], [CHR 0xE2, CHR 0x80, CHR 0x89],
      [CHR 0xE2, CHR 0x80, CHR 0x8A], [CHR 0xE2, CHR 0x80, CHR 0xA8],
      [CHR 0xE2, CHR 0x80, CHR 0xA9], [CHR 0xE2, CHR 0x80, CHR 0xAF],
      [CHR 0xE2, CHR 0x81, CHR 0x9F], [CHR 0xE3, CHR 0x80, CHR 0x80],
      [CHR 0xEF, CHR 0xBB, CHR 0xBF]]"

text \<open>Removing, as long as there is one, a leading sequence that is in the list \<open>ws\<close>.\<close>

function strip_leading :: "string list \<Rightarrow> string \<Rightarrow> string" where
  "strip_leading ws s =
     (case find (\<lambda>w. w \<noteq> [] \<and> startsWith s w) ws of
        None \<Rightarrow> s
      | Some w \<Rightarrow> strip_leading ws (drop (length w) s))"
  by pat_completeness auto
termination
proof (relation "measure (\<lambda>(ws, s). length s)")
  show "wf (measure (\<lambda>(ws, s). length s))" by simp
next
  fix ws :: "string list" and s w :: string
  assume "find (\<lambda>w. w \<noteq> [] \<and> startsWith s w) ws = Some w"
  then have w: "w \<noteq> []" and "startsWith s w"
    by (auto simp: find_Some_iff)
  then have "s \<noteq> []"
    by (cases s; cases w) simp_all
  with w show "((ws, drop (length w) s), (ws, s)) \<in> measure (\<lambda>(ws, s). length s)"
    by simp
qed

declare strip_leading.simps [simp del]

definition trimStart :: "string \<Rightarrow> string" where
  "trimStart s = strip_leading js_whitespace s"

definition trimEnd :: "string \<Rightarrow> string" where
  "trimEnd s = rev (strip_leading (map rev js_whitespace) (rev s))"

definition trim :: "string \<Rightarrow> string" where
  "trim s = trimEnd (trimStart s)"

text \<open>\<^verbatim>\<open>rule.replace('/', '')\<close>: the first slash is removed.\<close>

fun remove_slash :: "string \<Rightarrow> string" where
  "remove_slash [] = []"
| "remove_slash (c # cs) = (if c = CHR ''/'' then cs else c # remove_slash cs)"

definition checkRequiredRules :: "string list \<Rightarrow> string list \<Rightarrow> analyzer_result \<Rightarrow> analyzer_result" where
  "checkRequiredRules gitignoreLines requiredRules results0 =
     fold (\<lambda>r results.
        if list_ex (\<lambda>line. line = r \<or> includes_str line (remove_slash r)) gitignoreLines
        then push_passed
          \<lparr> rule = ''gitignore-has-'' @ remove_slash r,
            message = check_mark @ '' .gitignore includes: '' @ r,
            suggestion = None \<rparr> results
        else push_failed
          \<lparr> rule = ''gitignore-missing-'' @ remove_slash r,
            message = cross_mark @ '' .gitignore missing: '' @ r,
            suggestion = Some (''Add '' @ apos @ r @ apos @ '' to your .gitignore file'') \<rparr> results)
       requiredRules results0"

definition checkGeneralRules :: "string list \<Rightarrow> namespace_rules \<Rightarrow> analyzer_result \<Rightarrow> analyzer_result" where
  "checkGeneralRules gitignoreLines generalRules results0 =
     (case prohibitedFolders generalRules of
        None \<Rightarrow> results0
      | Some folders \<Rightarrow>
          fold (\<lambda>folder results.
             if list_ex (\<lambda>line. includes_str line folder) gitignoreLines
             then push_passed
               \<lparr> rule = ''gitignore-excludes-'' @ folder,
                 message = check_mark @ '' .gitignore excludes: '' @ folder,
                 suggestion = None \<rparr> results
             else push_warning
               \<lparr> rule = ''gitignore-should-exclude-'' @ folder,
                 message = warning_sign @ ''  Consider adding '' @ apos @ folder @ ''/'' @ apos
                             @ '' to .gitignore'',
                 suggestion = Some (''Add '' @ apos @ folder @ ''/'' @ apos
                             @ '' to exclude this folder from version control'') \<rparr> results)
            folders results0)"

definition gitignore_missing :: finding where
  "gitignore_missing =
     \<lparr> rule = ''gitignore-exists'',
       message = cross_mark @ '' Missing .gitignore file'',
       suggestion = Some ''Create a .gitignore file to exclude unnecessary files from version control'' \<rparr>"

definition gitignore_found :: finding where
  "gitignore_found =
     \<lparr> rule = ''gitignore-exists'',
       message = check_mark @ '' .gitignore file found'',
       suggestion = None \<rparr>"

definition gitignore_unreadable :: finding where
  "gitignore_unreadable =
     \<lparr> rule = ''gitignore-readable'',
       message = cross_mark @ '' Could not read .gitignore file'',
       suggestion = Some ''Make sure .gitignore file is readable'' \<rparr>"

text \<open>The body of the \<^verbatim>\<open>try\<close> of \<^verbatim>\<open>GitignoreAnalyzer.analyze\<close>.\<close>

definition gitignore_content_checks ::
  "runtime \<Rightarrow> string \<Rightarrow> rule_set \<Rightarrow> analyzer_result \<Rightarrow> js_error + analyzer_result" where
  "gitignore_content_checks rt gitignorePath rules results =
     (case readFileSync rt gitignorePath of
        Inl e \<Rightarrow> Inl e
      | Inr gitignoreContent \<Rightarrow>
          (let gitignoreLines = map trim (split_lines gitignoreContent);
               general_branch =
                 (case rules ''general'' of
                    Some general \<Rightarrow> checkGeneralRules gitignoreLines general results
                  | None \<Rightarrow> results)
           in Inr (case rules ''nodejs'' of
                Some nodejs \<Rightarrow>
                  (case gitignoreRules nodejs of
                     Some required \<Rightarrow> checkRequiredRules gitignoreLines required results
                   | None \<Rightarrow> general_branch)
              | None \<Rightarrow> general_branch)))"

definition GitignoreAnalyzer_analyze ::
  "runtime \<Rightarrow> string \<Rightarrow> rule_set \<Rightarrow> js_error + analyzer_result" where
  "GitignoreAnalyzer_analyze rt projectPath rules =
     (let results = new_results ''Gitignore Analyzer'';
          gitignorePath = path_join rt [projectPath, ''.gitignore'']
      in if \<not> existsSync rt gitignorePath
         then Inr (push_failed gitignore_missing results)
         else (let results1 = push_passed gitignore_found results
               in try_catch (gitignore_content_checks rt gitignorePath rules results1)
                    (\<lambda>error. Inr (push_failed gitignore_unreadable results1))))"

section \<open>EnvAnalyzer\<close>

definition default_prohibitedFiles :: "string list" where
  "default_prohibitedFiles = [''.env'', ''.env.local'', ''.env.production'', ''.env.development'']"

text \<open>\<^verbatim>\<open>rules.general?.prohibitedFiles || [...]\<close>: an array, also an empty one, is truthy.\<close>

definition prohibitedEnvFiles :: "rule_set \<Rightarrow> string list" where
  "prohibitedEnvFiles rules =
     (case rules ''general'' of
        None \<Rightarrow> default_prohibitedFiles
      | Some general \<Rightarrow>
          (case prohibitedFiles general of
             None \<Rightarrow> default_prohibitedFiles
           | Some files \<Rightarrow> files))"

text \<open>The two \<^verbatim>\<open>if\<close>s of the loop body are independent: a file can be pushed twice.\<close>

definition findEnvFiles_step :: "string list \<Rightarrow> string \<Rightarrow> string list \<Rightarrow> string list" where
  "findEnvFiles_step prohibited file foundFiles =
     (let foundFiles1 = (if file \<in> set prohibited then foundFiles @ [file] else foundFiles)
      in if startsWith file ''.env'' \<and> file \<noteq> ''.env.example''
         then foundFiles1 @ [file] else foundFiles1)"

definition findEnvFiles :: "runtime \<Rightarrow> string \<Rightarrow> string list \<Rightarrow> string list" where
  "findEnvFiles rt projectPath prohibited =
     (case readdirSync rt projectPath of
        Inl e \<Rightarrow> []
      | Inr files \<Rightarrow> fold (findEnvFiles_step prohibited) files [])"

definition no_env_files :: finding where
  "no_env_files =
     \<lparr> rule = ''no-env-files-committed'',
       message = check_mark @ '' No .env files found in repository'',
       suggestion = None \<rparr>"

definition env_file_committed :: "string \<Rightarrow> finding" where
  "env_file_committed envFile =
     \<lparr> rule = ''env-file-committed'',
       message = cross_mark @ '' Environment file found: '' @ envFile,
       suggestion = Some (''Remove '' @ apos @ envFile @ apos
         @ '' from repository and add it to .gitignore. Use '' @ apos @ ''.env.example'' @ apos
         @ '' instead to show required variables.'') \<rparr>"

definition env_example_exists :: finding where
  "env_example_exists =
     \<lparr> rule = ''env-example-exists'',
       message = check_mark @ '' .env.example file found (good practice)'',
       suggestion = None \<rparr>"

definition env_example_recommended :: finding where
  "env_example_recommended =
     \<lparr> rule = ''env-example-recommended'',
       message = warning_sign @ ''  Consider creating .env.example file'',
       suggestion = Some ''Create .env.example with dummy values to show required environment variables'' \<rparr>"

definition EnvAnalyzer_analyze ::
  "runtime \<Rightarrow> string \<Rightarrow> rule_set \<Rightarrow> js_error + analyzer_result" where
  "EnvAnalyzer_analyze rt projectPath rules =
     (let results = new_results ''Environment Files Analyzer'';
          foundEnvFiles = findEnvFiles rt projectPath (prohibitedEnvFiles rules);
          results1 =
            (if length foundEnvFiles = 0 then push_passed no_env_files results
             else fold (\<lambda>envFile. push_failed (env_file_committed envFile)) foundEnvFiles results);
          envExamplePath = path_join rt [projectPath, ''.env.example'']
      in Inr (if existsSync rt envExamplePath
              then push_passed env_example_exists results1
              else push_warning env_example_recommended results1))"

section \<open>DependencyAnalyzer\<close>

definition default_prohibitedFolders :: "string list" where
  "default_prohibitedFolders = [''node_modules'', ''.venv'', ''__pycache__'', ''venv'', ''env'']"

definition prohibitedFolders_of :: "rule_set \<Rightarrow> string list" where
  "prohibitedFolders_of rules =
     (case rules ''general'' of
        None \<Rightarrow> default_prohibitedFolders
      | Some general \<Rightarrow>
          (case prohibitedFolders general of
             None \<Rightarrow> default_prohibitedFolders
           | Some folders \<Rightarrow> folders))"

definition dependency_folder_found :: "string \<Rightarrow> finding" where
  "dependency_folder_found folder =
     \<lparr> rule = ''no-'' @ folder @ ''-committed'',
       message = cross_mark @ '' Dependency folder found: '' @ folder @ ''/'',
       suggestion = Some (''Remove '' @ apos @ folder @ ''/'' @ apos
         @ '' from repository and add it to .gitignore'') \<rparr>"

definition dependency_folder_absent :: "string \<Rightarrow> finding" where
  "dependency_folder_absent folder =
     \<lparr> rule = ''no-'' @ folder @ ''-committed'',
       message = check_mark @ '' No '' @ folder @ ''/ folder found in repository'',
       suggestion = None \<rparr>"

text \<open>\<^verbatim>\<open>fs.statSync\<close> is not guarded: its exception leaves \<^verbatim>\<open>analyze\<close>.\<close>

definition check_folder ::
  "runtime \<Rightarrow> string \<Rightarrow> string \<Rightarrow> analyzer_result \<Rightarrow> js_error + analyzer_result" where
  "check_folder rt projectPath folder results =
     (let folderPath = path_join rt [projectPath, folder]
      in if existsSync rt folderPath
         then (case statSync_isDirectory rt folderPath of
                 Inl e \<Rightarrow> Inl e
               | Inr isDirectory \<Rightarrow>
                   Inr (if isDirectory then push_failed (dependency_folder_found folder) results
                        else results))
         else Inr (push_passed (dependency_folder_absent folder) results))"

definition simple_passed :: "string \<Rightarrow> string \<Rightarrow> finding" where
  "simple_passed r m = \<lparr> rule = r, message = check_mark @ m, suggestion = None \<rparr>"

definition lockfile_recommended :: finding where
  "lockfile_recommended =
     \<lparr> rule = ''lockfile-recommended'',
       message = warning_sign @ ''  No lockfile found (package-lock.json or yarn.lock)'',
       suggestion = Some ''Consider committing your lockfile to ensure consistent dependency versions'' \<rparr>"

definition check_package_json :: "runtime \<Rightarrow> string \<Rightarrow> analyzer_result \<Rightarrow> analyzer_result" where
  "check_package_json rt projectPath results =
     (if existsSync rt (path_join rt [projectPath, ''package.json''])
      then (let results1 = push_passed (simple_passed ''package-json-exists'' '' package.json found'') results;
                results2 =
                  (if \<not> existsSync rt (path_join rt [projectPath, ''node_modules''])
                   then push_passed (simple_passed ''node-modules-not-committed''
                          '' node_modules/ not in repository (good!)'') results1
                   else results1)
            in if existsSync rt (path_join rt [projectPath, ''package-lock.json''])
               then push_passed (simple_passed ''lockfile-exists''
                      '' package-lock.json found (dependency versions locked)'') results2
               else if existsSync rt (path_join rt [projectPath, ''yarn.lock''])
               then push_passed (simple_passed ''lockfile-exists''
                      '' yarn.lock found (dependency versions locked)'') results2
               else push_warning lockfile_recommended results2)
      else results)"

definition check_requirements :: "runtime \<Rightarrow> string \<Rightarrow> analyzer_result \<Rightarrow> analyzer_result" where
  "check_requirements rt projectPath results =
     (if existsSync rt (path_join rt [projectPath, ''requirements.txt''])
      then (let results1 = push_passed (simple_passed ''requirements-exists'' '' requirements.txt found'') results
            in if \<not> existsSync rt (path_join rt [projectPath, ''.venv''])
                  \<and> \<not> existsSync rt (path_join rt [projectPath, ''venv''])
               then push_passed (simple_passed ''venv-not-committed''
                      '' Virtual environment not in repository (good!)'') results1
               else results1)
      else results)"

definition checkPackageManagerFiles :: "runtime \<Rightarrow> string \<Rightarrow> analyzer_result \<Rightarrow> analyzer_result" where
  "checkPackageManagerFiles rt projectPath results =
     check_requirements rt projectPath (check_package_json rt projectPath results)"

definition DependencyAnalyzer_analyze ::
  "runtime \<Rightarrow> string \<Rightarrow> rule_set \<Rightarrow> js_error + analyzer_result" where
  "DependencyAnalyzer_analyze rt projectPath rules =
     (case forEach (check_folder rt projectPath) (prohibitedFolders_of rules)
             (new_results ''Dependency Folders Analyzer'') of
        Inl e \<Rightarrow> Inl e
      | Inr results \<Rightarrow> Inr (checkPackageManagerFiles rt projectPath results))"

section \<open>CodeReviewer: running the analyzers\<close>

record analyzer_obj =
  name :: string
  analyze :: "string \<Rightarrow> rule_set \<Rightarrow> js_error + analyzer_result"

text \<open>The constructor's list: \<^verbatim>\<open>this.analyzers\<close>.\<close>

definition CodeReviewer_analyzers :: "runtime \<Rightarrow> analyzer_obj list" where
  "CodeReviewer_analyzers rt =
     [ \<lparr> name = ''Gitignore Analyzer'', analyze = GitignoreAnalyzer_analyze rt \<rparr>,
       \<lparr> name = ''Environment Files Analyzer'', analyze = EnvAnalyzer_analyze rt \<rparr>,
       \<lparr> name = ''Dependency Folders Analyzer'', analyze = DependencyAnalyzer_analyze rt \<rparr> ]"

text \<open>The summary's counters are named apart from the lists of an analyzer's result.\<close>

record summary =
  totalAnalyzers :: nat
  passed_count :: nat
  failed_count :: nat
  warnings_count :: nat

record aggregate_report =
  projectPath :: string
  projectType :: string
  timestamp :: string
  summary :: summary
  analyzers :: "analysis_result list"

definition ok_entry :: "analyzer_result \<Rightarrow> analysis_result" where
  "ok_entry r = \<lparr> analyzer = analyzer r, passed = passed r, failed = failed r,
     warnings = warnings r, error = None \<rparr>"

definition error_entry :: "string \<Rightarrow> js_error \<Rightarrow> analysis_result" where
  "error_entry nm e = \<lparr> analyzer = nm, passed = [], failed = [], warnings = [],
     error = Some (error_message e) \<rparr>"

definition add_counts :: "analyzer_result \<Rightarrow> summary \<Rightarrow> summary" where
  "add_counts r s = s\<lparr> passed_count := passed_count s + length (passed r),
     failed_count := failed_count s + length (failed r),
     warnings_count := warnings_count s + length (warnings r) \<rparr>"

text \<open>One turn of the loop \<^verbatim>\<open>for (const analyzer of this.analyzers)\<close>, with its
  \<^verbatim>\<open>try\<close>/\<^verbatim>\<open>catch\<close>.\<close>

definition run_analyzer :: "string \<Rightarrow> rule_set \<Rightarrow> analyzer_obj \<Rightarrow> aggregate_report \<Rightarrow> aggregate_report" where
  "run_analyzer path rules a results =
     (case analyze a path rules of
        Inr analyzerResult \<Rightarrow>
          results\<lparr> analyzers := analyzers results @ [ok_entry analyzerResult],
                   summary := add_counts analyzerResult (summary results) \<rparr>
      | Inl e \<Rightarrow>
          results\<lparr> analyzers := analyzers results @ [error_entry (name a) e] \<rparr>)"

definition resolve_projectType :: "runtime \<Rightarrow> string \<Rightarrow> string option \<Rightarrow> js_error + string" where
  "resolve_projectType rt path given =
     (case given of
        None \<Rightarrow> detectProjectType rt path
      | Some t \<Rightarrow> if t = [] then detectProjectType rt path else Inr t)"

definition initial_report :: "runtime \<Rightarrow> analyzer_obj list \<Rightarrow> string \<Rightarrow> string \<Rightarrow> aggregate_report" where
  "initial_report rt as path ty =
     \<lparr> projectPath = path, projectType = ty, timestamp = now_iso rt,
       summary = \<lparr> totalAnalyzers = length as, passed_count = 0, failed_count = 0,
                   warnings_count = 0 \<rparr>,
       analyzers = [] \<rparr>"

definition analyzeProject ::
  "runtime \<Rightarrow> analyzer_obj list \<Rightarrow> string \<Rightarrow> string option \<Rightarrow> js_error + aggregate_report" where
  "analyzeProject rt as path given =
     (if \<not> existsSync rt path
      then Inl (Error (''Project directory does not exist: '' @ path))
      else (case resolve_projectType rt path given of
              Inl e \<Rightarrow> Inl e
            | Inr ty \<Rightarrow>
                (case loadRules rt ty of
                   Inl e \<Rightarrow> Inl e
                 | Inr rules \<Rightarrow>
                     Inr (fold (run_analyzer path rules) as (initial_report rt as path ty)))))"

section \<open>CodeReviewer: the report\<close>

text \<open>A count in a template string: its decimal digits.\<close>

definition digit_char :: "nat \<Rightarrow> char" where
  "digit_char d = ''0123456789'' ! d"

fun show_nat :: "nat \<Rightarrow> string" where
  "show_nat n = (if n < 10 then [digit_char n] else show_nat (n div 10) @ [digit_char (n mod 10)])"

text \<open>\<^verbatim>\<open>lines.join('\n')\<close>\<close>

fun join_lines :: "string list \<Rightarrow> string" where
  "join_lines [] = []"
| "join_lines [l] = l"
| "join_lines (l # m # ls) = l @ newline @ join_lines (m # ls)"

definition report_header :: "runtime \<Rightarrow> aggregate_report \<Rightarrow> string" where
  "report_header rt results =
     robot_face @ '' **Code Structure Review**'' @ newline @ newline
     @ file_folder @ '' Project: '' @ path_basename rt (projectPath results) @ newline
     @ wrench @ '' Type: '' @ projectType results @ newline
     @ bar_chart @ '' Summary: '' @ show_nat (passed_count (summary results)) @ '' passed, ''
       @ show_nat (failed_count (summary results)) @ '' failed, ''
       @ show_nat (warnings_count (summary results)) @ '' warnings'' @ newline @ newline"

definition suggestion_line :: "finding \<Rightarrow> string list" where
  "suggestion_line f =
     (case suggestion f of
        None \<Rightarrow> []
      | Some s \<Rightarrow> if s = [] then [] else [''   '' @ light_bulb @ '' *'' @ s @ ''*''])"

definition failure_lines :: "finding \<Rightarrow> string list" where
  "failure_lines failure = [cross_mark @ '' **'' @ message failure @ ''**''] @ suggestion_line failure"

definition warning_lines :: "finding \<Rightarrow> string list" where
  "warning_lines warning = [warning_sign @ ''  **'' @ message warning @ ''**''] @ suggestion_line warning"

definition success_line :: "finding \<Rightarrow> string" where
  "success_line success = check_mark @ '' '' @ message success"

text \<open>The three arrays \<^verbatim>\<open>criticalIssues\<close>, \<^verbatim>\<open>warnings\<close> and \<^verbatim>\<open>successes\<close>, and the body of
  \<^verbatim>\<open>results.analyzers.forEach\<close>: an entry with a truthy \<^verbatim>\<open>error\<close> gives one critical line
  and nothing else.\<close>

type_synonym report_lines = "string list \<times> string list \<times> string list"

definition collect_entry :: "analysis_result \<Rightarrow> report_lines \<Rightarrow> report_lines" where
  "collect_entry a ls =
     (case ls of (criticalIssues, warns, successes) \<Rightarrow>
        (case error a of
           Some err \<Rightarrow>
             if err \<noteq> []
             then (criticalIssues @ [cross_mark @ '' **'' @ analyzer a @ ''**: '' @ err],
                   warns, successes)
             else (criticalIssues @ concat (map failure_lines (failed a)),
                   warns @ concat (map warning_lines (warnings a)),
                   successes @ map success_line (passed a))
         | None \<Rightarrow>
             (criticalIssues @ concat (map failure_lines (failed a)),
              warns @ concat (map warning_lines (warnings a)),
              successes @ map success_line (passed a))))"

definition collect_lines :: "analysis_result list \<Rightarrow> report_lines" where
  "collect_lines entries = fold collect_entry entries ([], [], [])"

definition report_section :: "string \<Rightarrow> string list \<Rightarrow> string" where
  "report_section title ls =
     (if length ls > 0 then title @ newline @ join_lines ls @ newline @ newline else [])"

definition general_recommendations :: string where
  "general_recommendations =
     ''## '' @ books @ '' General Recommendations'' @ newline
     @ ''- Keep your .gitignore file updated'' @ newline
     @ ''- Never commit environment files (.env)'' @ newline
     @ ''- Exclude dependency folders (node_modules, .venv)'' @ newline
     @ ''- Use .env.example to document required environment variables'' @ newline"

text \<open>The report before the closing section.\<close>

definition report_sections :: "runtime \<Rightarrow> aggregate_report \<Rightarrow> string" where
  "report_sections rt results =
     (case collect_lines (analyzers results) of (criticalIssues, warns, successes) \<Rightarrow>
        report_header rt results
        @ report_section (''## '' @ cross_mark @ '' Issues Found'') criticalIssues
        @ report_section (''## '' @ warning_sign @ ''  Warnings'') warns
        @ report_section (''## '' @ check_mark @ '' Good Practices Found'') successes)"

definition generateReport :: "runtime \<Rightarrow> aggregate_report \<Rightarrow> string" where
  "generateReport rt results =
     (case collect_lines (analyzers results) of (criticalIssues, warns, successes) \<Rightarrow>
        report_sections rt results
        @ (if length criticalIssues > 0 \<or> length warns > 0 then general_recommendations else []))"

text \<open>\<^verbatim>\<open>String.prototype.endsWith\<close>\<close>

definition endsWith :: "string \<Rightarrow> string \<Rightarrow> bool" where
  "endsWith s suffix = startsWith (rev s) (rev suffix)"

section \<open>GitHub as the webhook handler sees it\<close>

text \<open>
  The comments of the PR host are a store (a list of comments, each with the repository,
  the issue and its id), and every request the octokit client sends is logged in
  \<open>calls\<close>: a run without side effects leaves the whole state as it was.
\<close>

record gh_comment =
  comment_owner :: string
  comment_repo :: string
  issue_number :: nat
  comment_id :: nat
  body :: string

datatype api_call =
    Pulls_get string string nat
  | Pulls_listFiles string string nat
  | Issues_listComments string string nat
  | Issues_updateComment string string nat string
  | Issues_createComment string string nat string

record github =
  comments :: "gh_comment list"
  next_comment_id :: nat
  calls :: "api_call list"

record pr_data =
  title :: string
  head_sha :: string

record pr_payload =
  number :: nat

record repo_payload =
  repo_name :: string
  full_name :: string
  owner_login :: string

text \<open>The parsed body of a delivery: \<^verbatim>\<open>action\<close>, \<^verbatim>\<open>pull_request\<close> and \<^verbatim>\<open>repository\<close> may each
  be missing.\<close>

record payload =
  action :: "string option"
  pull_request :: "pr_payload option"
  repository :: "repo_payload option"

text \<open>
  The handler object. \<open>webhookSecret\<close> is set by the constructor; the other fields are
  what the handler calls outside the repository: \<^verbatim>\<open>crypto.createHmac('sha256', ...)\<close>,
  \<^verbatim>\<open>JSON.parse\<close> on the request body (\<open>None\<close> is a parsed \<^verbatim>\<open>null\<close>), the answers of the PR
  host to the two \<^verbatim>\<open>pulls\<close> requests, whether a request fails, and the clock.
\<close>

record webhook_handler =
  webhookSecret :: string
  hmac_sha256 :: "string \<Rightarrow> string \<Rightarrow> 256 word"
  JSON_parse_payload :: "string \<Rightarrow> js_error + payload option"
  pulls_get :: "string \<Rightarrow> string \<Rightarrow> nat \<Rightarrow> js_error + pr_data"
  pulls_listFiles :: "string \<Rightarrow> string \<Rightarrow> nat \<Rightarrow> js_error + string list"
  request_failure :: "api_call \<Rightarrow> js_error option"
  date_now :: string

text \<open>\<^verbatim>\<open>this.webhookSecret = process.env.WEBHOOK_SECRET || 'your-webhook-secret-here'\<close>\<close>

definition constructor_secret :: "string option \<Rightarrow> string" where
  "constructor_secret env_WEBHOOK_SECRET =
     (case env_WEBHOOK_SECRET of
        None \<Rightarrow> ''your-webhook-secret-here''
      | Some s \<Rightarrow> if s = [] then ''your-webhook-secret-here'' else s)"

subsection \<open>The octokit requests\<close>

definition log_call :: "api_call \<Rightarrow> github \<Rightarrow> github" where
  "log_call c gh = gh\<lparr> calls := calls gh @ [c] \<rparr>"

definition octokit_pulls_get ::
  "webhook_handler \<Rightarrow> string \<Rightarrow> string \<Rightarrow> nat \<Rightarrow> github \<Rightarrow> (js_error + pr_data) \<times> github" where
  "octokit_pulls_get h owner repo n gh = (pulls_get h owner repo n, log_call (Pulls_get owner repo n) gh)"

definition octokit_pulls_listFiles ::
  "webhook_handler \<Rightarrow> string \<Rightarrow> string \<Rightarrow> nat \<Rightarrow> github \<Rightarrow> (js_error + string list) \<times> github" where
  "octokit_pulls_listFiles h owner repo n gh =
     (pulls_listFiles h owner repo n, log_call (Pulls_listFiles owner repo n) gh)"

definition on_issue :: "string \<Rightarrow> string \<Rightarrow> nat \<Rightarrow> gh_comment \<Rightarrow> bool" where
  "on_issue owner repo n c =
     (comment_owner c = owner \<and> comment_repo c = repo \<and> issue_number c = n)"

definition octokit_issues_listComments ::
  "webhook_handler \<Rightarrow> string \<Rightarrow> string \<Rightarrow> nat \<Rightarrow> github \<Rightarrow> (js_error + gh_comment list) \<times> github" where
  "octokit_issues_listComments h owner repo n gh =
     (let c = Issues_listComments owner repo n
      in case request_failure h c of
           Some e \<Rightarrow> (Inl e, log_call c gh)
         | None \<Rightarrow> (Inr (filter (on_issue owner repo n) (comments gh)), log_call c gh))"

definition is_comment :: "string \<Rightarrow> string \<Rightarrow> nat \<Rightarrow> gh_comment \<Rightarrow> bool" where
  "is_comment owner repo cid c =
     (comment_owner c = owner \<and> comment_repo c = repo \<and> comment_id c = cid)"

definition octokit_issues_updateComment ::
  "webhook_handler \<Rightarrow> string \<Rightarrow> string \<Rightarrow> nat \<Rightarrow> string \<Rightarrow> github \<Rightarrow> (js_error + unit) \<times> github" where
  "octokit_issues_updateComment h owner repo cid b gh =
     (let c = Issues_updateComment owner repo cid b
      in case request_failure h c of
           Some e \<Rightarrow> (Inl e, log_call c gh)
         | None \<Rightarrow>
             if list_ex (is_comment owner repo cid) (comments gh)
             then (Inr (), log_call c (gh\<lparr> comments :=
                      map (\<lambda>x. if is_comment owner repo cid x then x\<lparr> body := b \<rparr> else x)
                        (comments gh) \<rparr>))
             else (Inl (HttpError ''Not Found''), log_call c gh))"

definition octokit_issues_createComment ::
  "webhook_handler \<Rightarrow> string \<Rightarrow> string \<Rightarrow> nat \<Rightarrow> string \<Rightarrow> github \<Rightarrow> (js_error + unit) \<times> github" where
  "octokit_issues_createComment h owner repo n b gh =
     (let c = Issues_createComment owner repo n b
      in case request_failure h c of
           Some e \<Rightarrow> (Inl e, log_call c gh)
         | None \<Rightarrow>
             (Inr (), log_call c (gh\<lparr> comments := comments gh @
                 [\<lparr> comment_owner = owner, comment_repo = repo, issue_number = n,
                    comment_id = next_comment_id gh, body = b \<rparr>],
                 next_comment_id := Suc (next_comment_id gh) \<rparr>)))"

section \<open>GitHubWebhookHandler\<close>

subsection \<open>commentOnPR\<close>

definition bot_marker :: string where
  "bot_marker = robot_face @ '' **Code Structure Review**''"

text \<open>The \<^verbatim>\<open>catch\<close> logs and rethrows the same exception.\<close>

definition commentOnPR ::
  "webhook_handler \<Rightarrow> string \<Rightarrow> string \<Rightarrow> nat \<Rightarrow> string \<Rightarrow> github \<Rightarrow> (js_error + unit) \<times> github" where
  "commentOnPR h owner repo prNumber msg gh =
     (case octokit_issues_listComments h owner repo prNumber gh of
        (Inl e, gh1) \<Rightarrow> (Inl e, gh1)
      | (Inr cs, gh1) \<Rightarrow>
          (case find (\<lambda>comment. includes_str (body comment) bot_marker) cs of
             Some botComment \<Rightarrow>
               octokit_issues_updateComment h owner repo (comment_id botComment) msg gh1
           | None \<Rightarrow>
               octokit_issues_createComment h owner repo prNumber msg gh1))"

subsection \<open>analyzeFiles and generatePRReport\<close>

record pr_item =
  item_type :: string
  item_file :: "string option"
  item_message :: string
  item_suggestion :: "string option"

record files_analysis =
  fa_projectType :: string
  fa_passed :: nat
  fa_failed :: nat
  fa_warnings :: nat
  issues :: "pr_item list"
  warning_items :: "pr_item list"
  successes :: "pr_item list"

definition env_file_item :: "string \<Rightarrow> pr_item" where
  "env_file_item filename =
     \<lparr> item_type = ''env-file'', item_file = Some filename,
       item_message = cross_mark @ '' Environment file should not be committed: '' @ filename,
       item_suggestion = Some (''Remove '' @ filename @ '' and add it to .gitignore'') \<rparr>"

definition node_modules_item :: pr_item where
  "node_modules_item =
     \<lparr> item_type = ''dependency-folder'', item_file = Some ''node_modules/'',
       item_message = cross_mark @ '' node_modules/ folder should not be committed'',
       item_suggestion = Some ''Add node_modules/ to .gitignore and remove from repository'' \<rparr>"

definition gitignore_item :: pr_item where
  "gitignore_item =
     \<lparr> item_type = ''gitignore'', item_file = None,
       item_message = check_mark @ '' .gitignore file found'',
       item_suggestion = None \<rparr>"

text \<open>The body of \<^verbatim>\<open>files.forEach\<close> in \<^verbatim>\<open>analyzeFiles\<close>: three independent checks.\<close>

definition analyzeFiles_step :: "string \<Rightarrow> files_analysis \<Rightarrow> files_analysis" where
  "analyzeFiles_step filename results =
     (let r1 = (if startsWith filename ''.env'' \<and> filename \<noteq> ''.env.example''
                then results\<lparr> issues := issues results @ [env_file_item filename],
                               fa_failed := fa_failed results + 1 \<rparr>
                else results);
          r2 = (if startsWith filename ''node_modules/''
                then r1\<lparr> issues := issues r1 @ [node_modules_item],
                          fa_failed := fa_failed r1 + 1 \<rparr>
                else r1)
      in if filename = ''.gitignore''
         then r2\<lparr> successes := successes r2 @ [gitignore_item],
                   fa_passed := fa_passed r2 + 1 \<rparr>
         else r2)"

definition analyzeFiles :: "string list \<Rightarrow> files_analysis" where
  "analyzeFiles files =
     fold analyzeFiles_step files
       \<lparr> fa_projectType =
           (if ''package.json'' \<in> set files then ''nodejs''
            else if ''requirements.txt'' \<in> set files then ''python''
            else ''unknown''),
         fa_passed = 0, fa_failed = 0, fa_warnings = 0,
         issues = [], warning_items = [], successes = [] \<rparr>"

definition issue_text :: "pr_item \<Rightarrow> string" where
  "issue_text issue =
     item_message issue @ newline
     @ (case item_suggestion issue of
          None \<Rightarrow> []
        | Some s \<Rightarrow> if s = [] then [] else light_bulb @ '' *'' @ s @ ''*'' @ newline @ newline)"

definition generatePRReport ::
  "webhook_handler \<Rightarrow> files_analysis \<Rightarrow> pr_data \<Rightarrow> string list \<Rightarrow> string" where
  "generatePRReport h analysis pr files =
     robot_face @ '' **Code Structure Review**'' @ newline @ newline
     @ clipboard @ '' **PR Summary:** '' @ title pr @ newline
     @ file_folder @ '' **Files changed:** '' @ show_nat (length files) @ newline
     @ wrench @ '' **Project type:** '' @ fa_projectType analysis @ newline
     @ bar_chart @ '' **Analysis:** '' @ show_nat (fa_passed analysis) @ '' passed, ''
       @ show_nat (fa_failed analysis) @ '' failed, ''
       @ show_nat (fa_warnings analysis) @ '' warnings'' @ newline @ newline
     @ (if length (issues analysis) > 0
        then ''## '' @ cross_mark @ '' Issues Found'' @ newline @ newline
             @ concat (map issue_text (issues analysis))
        else [])
     @ (if length (warning_items analysis) > 0
        then ''## '' @ warning_sign @ ''  Warnings'' @ newline @ newline
             @ concat (map (\<lambda>warning. item_message warning @ newline @ newline) (warning_items analysis))
        else [])
     @ (if length (successes analysis) > 0
        then ''## '' @ check_mark @ '' Good Practices'' @ newline @ newline
             @ concat (map (\<lambda>success. item_message success @ newline) (successes analysis))
        else [])
     @ newline @ ''---'' @ newline
     @ robot_face @ '' *Automated review by [PR Code Reviewer](https://github.com/sarboleda72/pr-code-reviewer)*''
     @ newline
     @ bar_chart @ '' Reviewed at: '' @ date_now h @ newline
     @ arrows_cycle @ '' Commit: '' @ [CHR 0x60] @ take 7 (head_sha pr) @ [CHR 0x60]"

subsection \<open>analyzePR\<close>

record analyzePR_result =
  success :: bool
  pr :: string
  analysis :: files_analysis
  filesAnalyzed :: nat

definition analyzePR ::
  "webhook_handler \<Rightarrow> string \<Rightarrow> string \<Rightarrow> nat \<Rightarrow> github \<Rightarrow> (js_error + analyzePR_result) \<times> github" where
  "analyzePR h owner repo prNumber gh =
     (case octokit_pulls_get h owner repo prNumber gh of
        (Inl e, gh1) \<Rightarrow> (Inl e, gh1)
      | (Inr pr_info, gh1) \<Rightarrow>
          (case octokit_pulls_listFiles h owner repo prNumber gh1 of
             (Inl e, gh2) \<Rightarrow> (Inl e, gh2)
           | (Inr files, gh2) \<Rightarrow>
               (let analysisResult = analyzeFiles files;
                    report = generatePRReport h analysisResult pr_info files
                in case commentOnPR h owner repo prNumber report gh2 of
                     (Inl e, gh3) \<Rightarrow> (Inl e, gh3)
                   | (Inr u, gh3) \<Rightarrow>
                       (Inr \<lparr> success = True,
                              pr = owner @ ''/'' @ repo @ ''#'' @ show_nat prNumber,
                              analysis = analysisResult,
                              filesAnalyzed = length files \<rparr>, gh3))))"

subsection \<open>verifyWebhookSignature\<close>

text \<open>\<^verbatim>\<open>.digest('hex')\<close>: the 64 lower-case hexadecimal digits of the 256-bit MAC.\<close>

definition hex_char :: "nat \<Rightarrow> char" where
  "hex_char d = ''0123456789abcdef'' ! d"

fun hex_nat :: "nat \<Rightarrow> nat \<Rightarrow> string" where
  "hex_nat 0 n = []"
| "hex_nat (Suc k) n = hex_nat k (n div 16) @ [hex_char (n mod 16)]"

definition digest_hex :: "256 word \<Rightarrow> string" where
  "digest_hex w = hex_nat 64 (unat w)"

text \<open>\<^verbatim>\<open>crypto.timingSafeEqual\<close> on two buffers: it throws when their byte lengths differ.\<close>

definition timingSafeEqual :: "string \<Rightarrow> string \<Rightarrow> js_error + bool" where
  "timingSafeEqual a b =
     (if length a \<noteq> length b
      then Inl (RangeError ''Input buffers must have the same byte length'')
      else Inr (a = b))"

definition verifyWebhookSignature :: "webhook_handler \<Rightarrow> string \<Rightarrow> string \<Rightarrow> js_error + bool" where
  "verifyWebhookSignature h payload signature =
     (let computedSignature = digest_hex (hmac_sha256 h (webhookSecret h) payload);
          expectedSignature = ''sha256='' @ computedSignature
      in timingSafeEqual signature expectedSignature)"

subsection \<open>handlePullRequestEvent\<close>

definition relevantActions :: "string list" where
  "relevantActions = [''opened'', ''synchronize'', ''reopened'']"

text \<open>\<^verbatim>\<open>relevantActions.includes(action)\<close>; a missing action is in no list.\<close>

definition is_relevant :: "string option \<Rightarrow> bool" where
  "is_relevant act = (case act of None \<Rightarrow> False | Some a \<Rightarrow> a \<in> set relevantActions)"

definition failure_comment :: "js_error \<Rightarrow> string" where
  "failure_comment e =
     robot_face @ '' **Code Review Failed**'' @ newline @ newline
     @ cross_mark @ '' **Error during analysis:** '' @ error_message e @ newline @ newline
     @ ''Please check the server logs or contact support.'' @ newline @ newline
     @ ''---'' @ newline
     @ wrench @ '' *Automated review by PR Code Reviewer*''"

text \<open>Destructuring \<^verbatim>\<open>null\<close>, and reading \<^verbatim>\<open>pull_request.number\<close> or
  \<^verbatim>\<open>repository.full_name\<close> of a missing object, throw a \<^verbatim>\<open>TypeError\<close> outside the \<^verbatim>\<open>try\<close>.\<close>

definition handlePullRequestEvent ::
  "webhook_handler \<Rightarrow> payload option \<Rightarrow> github \<Rightarrow> (js_error + unit) \<times> github" where
  "handlePullRequestEvent h parsed gh =
     (case parsed of
        None \<Rightarrow> (Inl (TypeError ''Cannot destructure property of null''), gh)
      | Some p \<Rightarrow>
          if \<not> is_relevant (action p) then (Inr (), gh)
          else (case pull_request p of
                  None \<Rightarrow> (Inl (TypeError ''Cannot read properties of undefined''), gh)
                | Some pull \<Rightarrow>
                    (case repository p of
                       None \<Rightarrow> (Inl (TypeError ''Cannot read properties of undefined''), gh)
                     | Some repo \<Rightarrow>
                         (case analyzePR h (owner_login repo) (repo_name repo) (number pull) gh of
                            (Inr r, gh1) \<Rightarrow> (Inr (), gh1)
                          | (Inl e, gh1) \<Rightarrow>
                              commentOnPR h (owner_login repo) (repo_name repo) (number pull)
                                (failure_comment e) gh1))))"

subsection \<open>handleWebhook\<close>

record request =
  header_signature :: "string option"
  header_event :: "string option"
  raw_body :: string

record response =
  status :: nat
  json :: string

definition unauthorized :: response where
  "unauthorized = \<lparr> status = 401, json = ''Invalid signature'' \<rparr>"

definition processed :: response where
  "processed = \<lparr> status = 200, json = ''Webhook processed successfully'' \<rparr>"

definition internal_error :: response where
  "internal_error = \<lparr> status = 500, json = ''Internal server error'' \<rparr>"

text \<open>
  \<^verbatim>\<open>if (this.webhookSecret && signature) { if (!this.verifyWebhookSignature(...)) return 401 }\<close>:
  the result is whether the request goes on; the verification runs only when the secret
  and the header are both truthy.
\<close>

definition signature_check :: "webhook_handler \<Rightarrow> request \<Rightarrow> js_error + bool" where
  "signature_check h req =
     (case header_signature req of
        None \<Rightarrow> Inr True
      | Some signature \<Rightarrow>
          if webhookSecret h \<noteq> [] \<and> signature \<noteq> []
          then verifyWebhookSignature h (raw_body req) signature
          else Inr True)"

definition handleWebhook :: "webhook_handler \<Rightarrow> request \<Rightarrow> github \<Rightarrow> response \<times> github" where
  "handleWebhook h req gh =
     (case signature_check h req of
        Inl e \<Rightarrow> (internal_error, gh)
      | Inr False \<Rightarrow> (unauthorized, gh)
      | Inr True \<Rightarrow>
          (case JSON_parse_payload h (raw_body req) of
             Inl e \<Rightarrow> (internal_error, gh)
           | Inr parsed \<Rightarrow>
               if header_event req = Some ''pull_request''
               then (case handlePullRequestEvent h parsed gh of
                       (Inl e, gh1) \<Rightarrow> (internal_error, gh1)
                     | (Inr u, gh1) \<Rightarrow> (processed, gh1))
               else (processed, gh)))"

section \<open>Example projects\<close>

text \<open>
  One runtime with two project directories, for evaluating the model. \<^verbatim>\<open>/proj\<close> holds
  \<^verbatim>\<open>.env\<close> and \<^verbatim>\<open>package.json\<close> and no \<^verbatim>\<open>.gitignore\<close>. \<^verbatim>\<open>/clean\<close> is a tidy Node.js
  project whose \<^verbatim>\<open>node_modules\<close> exists but cannot be inspected. The rule files are the
  README's.
\<close>

definition readme_general_rules :: rule_set where
  "readme_general_rules =
     [''general'' \<mapsto> \<lparr> requiredFiles = Some [''.gitignore''],
        prohibitedFiles = Some [''.env'', ''.env.local''],
        prohibitedFolders = Some [''node_modules'', ''.venv''],
        gitignoreRules = None \<rparr>]"

definition readme_nodejs_rules :: rule_set where
  "readme_nodejs_rules =
     [''nodejs'' \<mapsto> \<lparr> requiredFiles = Some [''.gitignore'', ''package.json''],
        prohibitedFiles = None,
        prohibitedFolders = None,
        gitignoreRules = Some [''node_modules/'', ''.env*'', ''dist/''] \<rparr>]"

fun join_slash :: "string list \<Rightarrow> string" where
  "join_slash [] = ''.''"
| "join_slash [p] = p"
| "join_slash (p # q # ps) = p @ ''/'' @ join_slash (q # ps)"

definition example_rt :: runtime where
  "example_rt =
     \<lparr> existsSync = (\<lambda>p. p \<in> set [''/proj'', ''/proj/.env'', ''/proj/package.json'',
          ''/clean'', ''/clean/.gitignore'', ''/clean/.env.example'', ''/clean/package.json'',
          ''/clean/package-lock.json'', ''/clean/node_modules'',
          ''/app/src/../rules/general-rules.json'', ''/app/src/../rules/nodejs-rules.json'']),
       readdirSync = (\<lambda>p.
          if p = ''/proj'' then Inr [''.env'', ''package.json'']
          else if p = ''/clean'' then Inr [''.env.example'', ''.gitignore'', ''node_modules'',
                 ''package-lock.json'', ''package.json'']
          else Inl (Error (''ENOENT: no such file or directory, scandir '' @ apos @ p @ apos))),
       readFileSync = (\<lambda>p.
          if p = ''/app/src/../rules/general-rules.json'' then Inr ''general-rules''
          else if p = ''/app/src/../rules/nodejs-rules.json'' then Inr ''nodejs-rules''
          else if p = ''/clean/.gitignore''
            then Inr (''node_modules/'' @ newline @ ''.env*'' @ newline @ ''dist/'' @ newline)
          else Inl (Error (''ENOENT: no such file or directory, open '' @ apos @ p @ apos))),
       statSync_isDirectory = (\<lambda>p.
          if p = ''/clean/node_modules''
          then Inl (Error (''EACCES: permission denied, stat '' @ apos @ p @ apos))
          else Inr (p \<in> set [''/proj'', ''/clean''])),
       path_join = join_slash,
       path_basename = (\<lambda>p. rev (takeWhile (\<lambda>c. c \<noteq> CHR ''/'') (rev p))),
       JSON_parse = (\<lambda>txt.
          if txt = ''general-rules'' then Inr readme_general_rules
          else if txt = ''nodejs-rules'' then Inr readme_nodejs_rules
          else Inl (SyntaxError ''Unexpected token'')),
       dirname = ''/app/src'',
       now_iso = ''2025-01-01T00:00:00.000Z'' \<rparr>"

definition example_rules :: rule_set where
  "example_rules = readme_general_rules ++ readme_nodejs_rules"


text \<open>The report \<open>analyzeProject\<close> returns for \<^verbatim>\<open>/clean\<close>: two analyzers pass everything, the
  third throws.\<close>

definition gitignore_has :: "string \<Rightarrow> string \<Rightarrow> finding" where
  "gitignore_has stripped r =
     \<lparr> rule = ''gitignore-has-'' @ stripped,
       message = check_mark @ '' .gitignore includes: '' @ r,
       suggestion = None \<rparr>"

definition clean_report :: aggregate_report where
  "clean_report =
     \<lparr> projectPath = ''/clean'', projectType = ''nodejs'',
       timestamp = ''2025-01-01T00:00:00.000Z'',
       summary = \<lparr> totalAnalyzers = 3, passed_count = 6, failed_count = 0, warnings_count = 0 \<rparr>,
       analyzers =
         [ \<lparr> analyzer = ''Gitignore Analyzer'',
             passed = [gitignore_found, gitignore_has ''node_modules'' ''node_modules/'',
                       gitignore_has ''.env*'' ''.env*'', gitignore_has ''dist'' ''dist/''],
             failed = [], warnings = [], error = None \<rparr>,
           \<lparr> analyzer = ''Environment Files Analyzer'',
             passed = [no_env_files, env_example_exists],
             failed = [], warnings = [], error = None \<rparr>,
           \<lparr> analyzer = ''Dependency Folders Analyzer'',
             passed = [], failed = [], warnings = [],
             error = Some (''EACCES: permission denied, stat '' @ apos @ ''/clean/node_modules'' @ apos) \<rparr> ] \<rparr>"

section \<open>Example deliveries\<close>

text \<open>
  A handler whose secret is configured, with a stand-in for the MAC, and a repository
  \<^verbatim>\<open>octo/demo\<close> whose pull request 7 changes \<^verbatim>\<open>.env\<close> and \<^verbatim>\<open>package.json\<close>. The bodies of the
  deliveries are abbreviated; \<open>JSON_parse_payload\<close> gives their parsed form.
\<close>

definition example_mac :: "string \<Rightarrow> string \<Rightarrow> 256 word" where
  "example_mac key msg = of_nat (length key + 31 * length msg + sum_list (map of_char msg))"

definition example_payload :: "string \<Rightarrow> payload" where
  "example_payload act =
     \<lparr> action = Some act,
       pull_request = Some \<lparr> number = 7 \<rparr>,
       repository = Some \<lparr> repo_name = ''demo'', full_name = ''octo/demo'', owner_login = ''octo'' \<rparr> \<rparr>"

definition example_handler :: webhook_handler where
  "example_handler =
     \<lparr> webhookSecret = constructor_secret (Some ''s3cret''),
       hmac_sha256 = example_mac,
       JSON_parse_payload = (\<lambda>txt.
          if txt = ''opened PR 7'' then Inr (Some (example_payload ''opened''))
          else if txt = ''closed PR 7'' then Inr (Some (example_payload ''closed''))
          else Inl (SyntaxError ''Unexpected token'')),
       pulls_get = (\<lambda>owner repo n. Inr \<lparr> title = ''Add config'', head_sha = ''0123456789abcdef'' \<rparr>),
       pulls_listFiles = (\<lambda>owner repo n. Inr [''.env'', ''package.json'']),
       request_failure = (\<lambda>c. None),
       date_now = ''2025-01-01T00:00:00.000Z'' \<rparr>"

definition empty_github :: github where
  "empty_github = \<lparr> comments = [], next_comment_id = 1, calls = [] \<rparr>"

text \<open>A delivery without the signature header, one with a header of the wrong length, one
  with a header of the right length and a wrong digest, and a signed delivery of a closed
  pull request.\<close>

definition unsigned_opened :: request where
  "unsigned_opened = \<lparr> header_signature = None, header_event = Some ''pull_request'',
     raw_body = ''opened PR 7'' \<rparr>"

definition short_signature_opened :: request where
  "short_signature_opened = \<lparr> header_signature = Some ''sha256=00'',
     header_event = Some ''pull_request'', raw_body = ''opened PR 7'' \<rparr>"

definition forged_opened :: request where
  "forged_opened = \<lparr> header_signature =
       Some ''sha256=0000000000000000000000000000000000000000000000000000000000000000'',
     header_event = Some ''pull_request'', raw_body = ''opened PR 7'' \<rparr>"

definition signed_closed :: request where
  "signed_closed = \<lparr> header_signature =
       Some (''sha256='' @ digest_hex (example_mac ''s3cret'' ''closed PR 7'')),
     header_event = Some ''pull_request'', raw_body = ''closed PR 7'' \<rparr>"

text \<open>A store in which somebody quotes the marker in a comment on pull request 7.\<close>

definition quoting_comment :: gh_comment where
  "quoting_comment =
     \<lparr> comment_owner = ''octo'', comment_repo = ''demo'', issue_number = 7, comment_id = 1,
       body = ''The line '' @ bot_marker @ '' is shown twice'' \<rparr>"

definition quoted_github :: github where
  "quoted_github = \<lparr> comments = [quoting_comment], next_comment_id = 2, calls = [] \<rparr>"

section \<open>Vocabulary of the properties\<close>

text \<open>The entry the loop of \<open>analyzeProject\<close> pushes for one analyzer.\<close>

definition entry_of :: "string \<Rightarrow> rule_set \<Rightarrow> analyzer_obj \<Rightarrow> analysis_result" where
  "entry_of path rules a =
     (case analyze a path rules of Inr r \<Rightarrow> ok_entry r | Inl e \<Rightarrow> error_entry (name a) e)"






text \<open>The lines one entry adds to \<^verbatim>\<open>criticalIssues\<close> and to \<^verbatim>\<open>warnings\<close> in
  \<open>generateReport\<close>.\<close>

definition critical_lines_of :: "analysis_result \<Rightarrow> string list" where
  "critical_lines_of a = fst (collect_entry a ([], [], []))"

definition warning_lines_of :: "analysis_result \<Rightarrow> string list" where
  "warning_lines_of a = fst (snd (collect_entry a ([], [], [])))"

definition success_lines_of :: "analysis_result \<Rightarrow> string list" where
  "success_lines_of a = snd (snd (collect_entry a ([], [], [])))"

text \<open>The header value \<open>verifyWebhookSignature\<close> compares with.\<close>

definition expected_signature :: "webhook_handler \<Rightarrow> string \<Rightarrow> string" where
  "expected_signature h payload =
     ''sha256='' @ digest_hex (hmac_sha256 h (webhookSecret h) payload)"

text \<open>The comments of one pull request, and those among them that carry the marker.\<close>

definition pr_comments :: "string \<Rightarrow> string \<Rightarrow> nat \<Rightarrow> github \<Rightarrow> gh_comment list" where
  "pr_comments owner repo n gh = filter (on_issue owner repo n) (comments gh)"

definition is_bot_comment :: "gh_comment \<Rightarrow> bool" where
  "is_bot_comment c = includes_str (body c) bot_marker"

definition bot_comments :: "string \<Rightarrow> string \<Rightarrow> nat \<Rightarrow> github \<Rightarrow> gh_comment list" where
  "bot_comments owner repo n gh = filter is_bot_comment (pr_comments owner repo n gh)"

text \<open>The comment ids of the store are distinct and below the next id to be given.\<close>

definition store_ok :: "github \<Rightarrow> bool" where
  "store_ok gh = (distinct (map comment_id (comments gh))
     \<and> (\<forall>c \<in> set (comments gh). comment_id c < next_comment_id gh))"

text \<open>What \<^verbatim>\<open>issues.updateComment\<close> does to one comment of the store.\<close>

definition set_body :: "string \<Rightarrow> string \<Rightarrow> nat \<Rightarrow> string \<Rightarrow> gh_comment \<Rightarrow> gh_comment" where
  "set_body owner repo cid b x = (if is_comment owner repo cid x then x\<lparr> body := b \<rparr> else x)"

definition new_comment :: "string \<Rightarrow> string \<Rightarrow> nat \<Rightarrow> nat \<Rightarrow> string \<Rightarrow> gh_comment" where
  "new_comment owner repo n cid b =
     \<lparr> comment_owner = owner, comment_repo = repo, issue_number = n, comment_id = cid, body = b \<rparr>"

section \<open>Properties\<close>

subsection \<open>Helper lemmas\<close>

lemma try_catch_Inr: "(\<And>e. \<exists>v. h e = Inr v) \<Longrightarrow> \<exists>v. try_catch b h = Inr v"
  by (cases b) (auto simp: try_catch_def)

lemma loadRules_total: "\<exists>rules. loadRules rt ty = Inr rules"
  unfolding loadRules_def by (rule try_catch_Inr) simp

lemma detectProjectType_returns: "\<exists>ty. detectProjectType rt p = Inr ty"
  unfolding detectProjectType_def by (rule try_catch_Inr) simp

lemma example_general: "read_json example_rt (generalRulesPath example_rt) = Inr readme_general_rules"
  by (simp add: read_json_def generalRulesPath_def example_rt_def)

lemma example_nodejs: "read_json example_rt (rulesPath example_rt ''nodejs'') = Inr readme_nodejs_rules"
  by (simp add: read_json_def rulesPath_def example_rt_def)

lemma example_loadRules:
  "loadRules example_rt ''nodejs'' = Inr (readme_general_rules ++ readme_nodejs_rules)"
  using example_general example_nodejs
  by (simp add: loadRules_def load_general_def load_project_def try_catch_def)
     (simp add: generalRulesPath_def rulesPath_def example_rt_def)


lemma entry_of_error_None:
  "error (entry_of path rules a) = None \<longleftrightarrow> (\<exists>r. analyze a path rules = Inr r)"
  by (auto simp: entry_of_def ok_entry_def error_entry_def split: sum.splits)



lemma analyzeProject_eq:
  assumes "existsSync rt path" "resolve_projectType rt path given = Inr ty" "loadRules rt ty = Inr rules"
  shows "analyzeProject rt as path given
           = Inr (fold (run_analyzer path rules) as (initial_report rt as path ty))"
  using assms by (simp add: analyzeProject_def)

lemma example_rules_general:
  "example_rules ''general'' = Some \<lparr> requiredFiles = Some [''.gitignore''],
        prohibitedFiles = Some [''.env'', ''.env.local''],
        prohibitedFolders = Some [''node_modules'', ''.venv''],
        gitignoreRules = None \<rparr>"
  by (simp add: example_rules_def readme_general_rules_def readme_nodejs_rules_def map_add_def)

lemma example_rules_nodejs:
  "example_rules ''nodejs'' = Some \<lparr> requiredFiles = Some [''.gitignore'', ''package.json''],
        prohibitedFiles = None,
        prohibitedFolders = None,
        gitignoreRules = Some [''node_modules/'', ''.env*'', ''dist/''] \<rparr>"
  by (simp add: example_rules_def readme_general_rules_def readme_nodejs_rules_def map_add_def)

lemma example_trims:
  "trim ''node_modules/'' = ''node_modules/''" "trim ''.env*'' = ''.env*''"
  "trim ''dist/'' = ''dist/''" "trim [] = []"
  by (simp_all add: trim_def trimStart_def trimEnd_def strip_leading.simps js_whitespace_def)

lemma example_gitignore_clean:
  "GitignoreAnalyzer_analyze example_rt ''/clean'' example_rules
     = Inr \<lparr> analyzer = ''Gitignore Analyzer'',
             passed = [gitignore_found, gitignore_has ''node_modules'' ''node_modules/'',
                       gitignore_has ''.env*'' ''.env*'', gitignore_has ''dist'' ''dist/''],
             failed = [], warnings = [] \<rparr>"
  by (simp add: GitignoreAnalyzer_analyze_def gitignore_content_checks_def checkRequiredRules_def
      example_rules_nodejs example_rules_general try_catch_def Let_def new_results_def
      push_passed_def push_failed_def gitignore_has_def example_trims newline_def
      example_rt_def)

lemma example_env_clean:
  "EnvAnalyzer_analyze example_rt ''/clean'' example_rules
     = Inr \<lparr> analyzer = ''Environment Files Analyzer'',
             passed = [no_env_files, env_example_exists],
             failed = [], warnings = [] \<rparr>"
  by (simp add: EnvAnalyzer_analyze_def findEnvFiles_def findEnvFiles_step_def prohibitedEnvFiles_def
      example_rules_general example_rt_def
      new_results_def push_failed_def push_passed_def push_warning_def Let_def)

lemma example_dependency_clean:
  "DependencyAnalyzer_analyze example_rt ''/clean'' example_rules
     = Inl (Error (''EACCES: permission denied, stat '' @ apos @ ''/clean/node_modules'' @ apos))"
  by (simp add: DependencyAnalyzer_analyze_def prohibitedFolders_of_def example_rules_general
      check_folder_def Let_def example_rt_def)




lemma example_clean_report:
  "analyzeProject example_rt (CodeReviewer_analyzers example_rt) ''/clean'' None = Inr clean_report"
proof -
  have ty: "resolve_projectType example_rt ''/clean'' None = Inr ''nodejs''"
    by (simp add: resolve_projectType_def detectProjectType_def try_catch_def example_rt_def)
  have ex: "existsSync example_rt ''/clean''"
    by (simp add: example_rt_def)
  have "fold (run_analyzer ''/clean'' example_rules) (CodeReviewer_analyzers example_rt)
          (initial_report example_rt (CodeReviewer_analyzers example_rt) ''/clean'' ''nodejs'')
        = clean_report"
    by (simp add: CodeReviewer_analyzers_def run_analyzer_def example_gitignore_clean
        example_env_clean example_dependency_clean initial_report_def clean_report_def
        ok_entry_def error_entry_def add_counts_def)
       (simp add: example_rt_def)
  then show ?thesis
    using analyzeProject_eq [OF ex ty example_loadRules] by (simp add: example_rules_def)
qed

lemma collect_entry_append:
  "collect_entry a (c, w, s)
     = (c @ critical_lines_of a, w @ warning_lines_of a, s @ success_lines_of a)"
  by (simp add: collect_entry_def critical_lines_of_def warning_lines_of_def success_lines_of_def
      split: option.splits)

lemma fold_collect_entry:
  "fold collect_entry es (c, w, s)
     = (c @ concat (map critical_lines_of es), w @ concat (map warning_lines_of es),
        s @ concat (map success_lines_of es))"
  by (induction es arbitrary: c w s) (simp_all add: collect_entry_append)

lemma collect_lines_eq:
  "collect_lines es = (concat (map critical_lines_of es), concat (map warning_lines_of es),
        concat (map success_lines_of es))"
  by (simp add: collect_lines_def fold_collect_entry)

lemma failure_lines_nonempty: "failure_lines f \<noteq> []"
  by (simp add: failure_lines_def)

lemma warning_lines_nonempty: "warning_lines f \<noteq> []"
  by (simp add: warning_lines_def)

lemma critical_lines_of_empty:
  "critical_lines_of a = [] \<longleftrightarrow> \<not> truthy (error a) \<and> failed a = []"
  by (cases "error a")
     (auto simp: critical_lines_of_def collect_entry_def failure_lines_nonempty)

lemma warning_lines_of_empty:
  "warning_lines_of a = [] \<longleftrightarrow> truthy (error a) \<or> warnings a = []"
  by (cases "error a")
     (auto simp: warning_lines_of_def collect_entry_def warning_lines_nonempty)

lemma report_section_end:
  "report_section t ls = [] \<or> (\<exists>b. report_section t ls = b @ newline @ newline)"
  by (auto simp: report_section_def)

lemma report_header_end: "\<exists>b. report_header rt r = b @ newline @ newline"
  unfolding report_header_def by (metis append.assoc)

lemma append_end:
  assumes "\<exists>b. x = b @ newline @ newline" "y = [] \<or> (\<exists>b. y = b @ newline @ newline)"
  shows "\<exists>b. x @ y = b @ newline @ newline"
  using assms by (metis append.assoc append_Nil2)

lemma report_sections_end: "\<exists>b. report_sections rt r = b @ newline @ newline"
proof -
  obtain c w s where cl: "collect_lines (analyzers r) = (c, w, s)"
    by (cases "collect_lines (analyzers r)") auto
  have "\<exists>b. (((report_header rt r
        @ report_section (''## '' @ cross_mark @ '' Issues Found'') c)
        @ report_section (''## '' @ warning_sign @ ''  Warnings'') w)
        @ report_section (''## '' @ check_mark @ '' Good Practices Found'') s) = b @ newline @ newline"
    by (intro append_end report_header_end report_section_end)
  then show ?thesis by (simp add: report_sections_def cl)
qed

lemma recommendations_end:
  "general_recommendations =
     (''## '' @ books @ '' General Recommendations'' @ newline
     @ ''- Keep your .gitignore file updated'' @ newline
     @ ''- Never commit environment files (.env)'' @ newline
     @ ''- Exclude dependency folders (node_modules, .venv)'' @ newline
     @ ''- Use .env.example to document required environment variable'') @ ''s'' @ newline"
  by (simp add: general_recommendations_def)

lemma startsWith_append: "startsWith (p @ s) p"
  by (induction p) auto

lemma endsWith_append: "endsWith (b @ s) s"
  by (simp add: endsWith_def startsWith_append)

lemma not_endsWith_recommendations:
  "\<not> endsWith (b @ newline @ newline) general_recommendations"
  by (subst recommendations_end) (simp add: endsWith_def newline_def)

lemma includes_str_refl: "includes_str s s"
  by (cases s) (simp_all add: startsWith_append [of _ "[]", simplified])

lemma includes_str_append: "includes_str (b @ s) s"
  by (induction b) (simp_all add: includes_str_refl)

lemma hex_char_inj: "a < 16 \<Longrightarrow> b < 16 \<Longrightarrow> hex_char a = hex_char b \<Longrightarrow> a = b"
proof -
  assume a: "a < 16" and b: "b < 16" and eq: "hex_char a = hex_char b"
  have d: "distinct ''0123456789abcdef''" by simp
  have l: "length ''0123456789abcdef'' = 16" by simp
  from eq have "''0123456789abcdef'' ! a = ''0123456789abcdef'' ! b"
    by (simp only: hex_char_def)
  with d a b l show "a = b"
    by (metis nth_eq_iff_index_eq)
qed

lemma length_hex_nat: "length (hex_nat k n) = k"
  by (induction k arbitrary: n) auto

lemma hex_nat_inj: "n < 16 ^ k \<Longrightarrow> m < 16 ^ k \<Longrightarrow> hex_nat k n = hex_nat k m \<Longrightarrow> n = m"
proof (induction k arbitrary: n m)
  case 0
  then show ?case by simp
next
  case (Suc k)
  from Suc.prems(3) have eqs: "hex_nat k (n div 16) = hex_nat k (m div 16)"
    "hex_char (n mod 16) = hex_char (m mod 16)"
    by (simp_all add: length_hex_nat)
  have "n div 16 < 16 ^ k" "m div 16 < 16 ^ k"
    using Suc.prems(1,2) by (simp_all add: less_mult_imp_div_less mult.commute)
  with eqs(1) have "n div 16 = m div 16" by (rule Suc.IH [rotated 2])
  moreover have "n mod 16 = m mod 16"
    using eqs(2) by (intro hex_char_inj) simp_all
  ultimately show ?case
    by (metis div_mult_mod_eq)
qed

lemma length_digest_hex: "length (digest_hex w) = 64"
  by (simp add: digest_hex_def length_hex_nat)

lemma digest_hex_inj: "digest_hex a = digest_hex b \<Longrightarrow> a = b"
proof -
  assume eq: "digest_hex a = digest_hex b"
  have "unat a < 2 ^ 256" "unat b < 2 ^ 256"
    using unsigned_less [of a] unsigned_less [of b] by simp_all
  moreover have "(2::nat) ^ 256 = 16 ^ 64" by simp
  ultimately have "unat a < 16 ^ 64" "unat b < 16 ^ 64" by simp_all
  with eq have "unat a = unat b"
    unfolding digest_hex_def by (intro hex_nat_inj)
  then show "a = b" by (simp add: word_unat_eq_iff)
qed

lemma verify_eq:
  "verifyWebhookSignature h payload signature =
     (if length signature \<noteq> 71
      then Inl (RangeError ''Input buffers must have the same byte length'')
      else Inr (signature = ''sha256='' @ digest_hex (hmac_sha256 h (webhookSecret h) payload)))"
  by (simp add: verifyWebhookSignature_def timingSafeEqual_def Let_def length_digest_hex)

lemma example_secret: "webhookSecret example_handler = ''s3cret''"
  by (simp add: example_handler_def constructor_secret_def)

lemma example_hmac: "hmac_sha256 example_handler = example_mac"
  by (simp add: example_handler_def)


lemma is_relevant_iff:
  "is_relevant a \<longleftrightarrow> a \<in> {Some ''opened'', Some ''synchronize'', Some ''reopened''}"
  by (cases a) (auto simp: is_relevant_def relevantActions_def)

lemma signature_check_missing: "header_signature req = None \<Longrightarrow> signature_check h req = Inr True"
  by (simp add: signature_check_def)

lemma handleWebhook_wrong_length:
  assumes "header_signature req = Some s" "s \<noteq> []" "webhookSecret h \<noteq> []" "length s \<noteq> 71"
  shows "handleWebhook h req gh = (internal_error, gh)"
  using assms by (simp add: handleWebhook_def signature_check_def verify_eq)

lemma handleWebhook_mismatch:
  assumes "header_signature req = Some s" "webhookSecret h \<noteq> []" "length s = 71"
    and "s \<noteq> ''sha256='' @ digest_hex (hmac_sha256 h (webhookSecret h) (raw_body req))"
  shows "handleWebhook h req gh = (unauthorized, gh)"
  using assms by (auto simp: handleWebhook_def signature_check_def verify_eq)

lemma example_signed_closed_check: "signature_check example_handler signed_closed = Inr True"
  by (simp add: signature_check_def signed_closed_def verify_eq length_digest_hex
      example_secret example_hmac)

lemma commentOnPR_empty:
  "request_failure h = (\<lambda>c. None) \<Longrightarrow>
   commentOnPR h owner repo n msg \<lparr> comments = [], next_comment_id = k, calls = cs \<rparr>
     = (Inr (), \<lparr> comments = [\<lparr> comment_owner = owner, comment_repo = repo, issue_number = n,
                    comment_id = k, body = msg \<rparr>],
                  next_comment_id = Suc k,
                  calls = cs @ [Issues_listComments owner repo n, Issues_createComment owner repo n msg] \<rparr>)"
  by (simp add: commentOnPR_def octokit_issues_listComments_def octokit_issues_createComment_def
      log_call_def Let_def)

lemma example_no_failure: "request_failure example_handler = (\<lambda>c. None)"
  by (simp add: example_handler_def)

lemma example_analyzePR:
  "\<exists>r msg. analyzePR example_handler ''octo'' ''demo'' 7 empty_github
     = (Inr r, \<lparr> comments = [\<lparr> comment_owner = ''octo'', comment_repo = ''demo'', issue_number = 7,
                    comment_id = 1, body = msg \<rparr>],
          next_comment_id = 2,
          calls = [Pulls_get ''octo'' ''demo'' 7, Pulls_listFiles ''octo'' ''demo'' 7,
                   Issues_listComments ''octo'' ''demo'' 7, Issues_createComment ''octo'' ''demo'' 7 msg] \<rparr>)"
proof -
  have g: "pulls_get example_handler ''octo'' ''demo'' 7
      = Inr \<lparr> title = ''Add config'', head_sha = ''0123456789abcdef'' \<rparr>"
    by (simp add: example_handler_def)
  have f: "pulls_listFiles example_handler ''octo'' ''demo'' 7 = Inr [''.env'', ''package.json'']"
    by (simp add: example_handler_def)
  show ?thesis
    by (simp add: analyzePR_def octokit_pulls_get_def octokit_pulls_listFiles_def log_call_def
        empty_github_def commentOnPR_empty [OF example_no_failure] Let_def g f)
qed

lemma find_append_if:
  "find P (xs @ ys) = (case find P xs of None \<Rightarrow> find P ys | Some x \<Rightarrow> Some x)"
  by (induction xs) auto

lemma set_body_fields:
  "comment_owner (set_body owner repo cid b x) = comment_owner x"
  "comment_repo (set_body owner repo cid b x) = comment_repo x"
  "issue_number (set_body owner repo cid b x) = issue_number x"
  "comment_id (set_body owner repo cid b x) = comment_id x"
  by (simp_all add: set_body_def)

lemma set_body_idem:
  "set_body owner repo cid b (set_body owner repo cid b x) = set_body owner repo cid b x"
  by (simp add: set_body_def is_comment_def)

lemma on_issue_set_body: "on_issue owner repo n (set_body o' r' cid b x) = on_issue owner repo n x"
  by (simp add: on_issue_def set_body_fields)

lemma pr_comments_map_set_body:
  "filter (on_issue owner repo n) (map (set_body o' r' cid b) cs)
     = map (set_body o' r' cid b) (filter (on_issue owner repo n) cs)"
  by (induction cs) (simp_all add: on_issue_set_body)

text \<open>One call, a marked comment exists.\<close>

lemma commentOnPR_found:
  assumes nf: "request_failure h = (\<lambda>c. None)"
    and f: "find is_bot_comment (pr_comments owner repo n gh) = Some c"
  shows "\<exists>gh1. commentOnPR h owner repo n msg gh = (Inr (), gh1)
           \<and> comments gh1 = map (set_body owner repo (comment_id c) msg) (comments gh)
           \<and> next_comment_id gh1 = next_comment_id gh"
proof -
  from f have "c \<in> set (pr_comments owner repo n gh)"
    by (auto simp: find_Some_iff)
  then have c: "c \<in> set (comments gh)" "on_issue owner repo n c"
    by (simp_all add: pr_comments_def)
  then have ex: "list_ex (is_comment owner repo (comment_id c)) (comments gh)"
    by (auto simp: list_ex_iff is_comment_def on_issue_def)
  have f': "find (\<lambda>comment. includes_str (body comment) bot_marker)
              (filter (on_issue owner repo n) (comments gh)) = Some c"
    using f by (simp add: pr_comments_def is_bot_comment_def [abs_def])
  show ?thesis
    using ex
    by (simp add: commentOnPR_def octokit_issues_listComments_def octokit_issues_updateComment_def
        nf log_call_def Let_def f' set_body_def [abs_def])
qed

lemma commentOnPR_not_found:
  assumes nf: "request_failure h = (\<lambda>c. None)"
    and f: "find is_bot_comment (pr_comments owner repo n gh) = None"
  shows "\<exists>gh1. commentOnPR h owner repo n msg gh = (Inr (), gh1)
           \<and> comments gh1 = comments gh @ [new_comment owner repo n (next_comment_id gh) msg]
           \<and> next_comment_id gh1 = Suc (next_comment_id gh)"
proof -
  have f': "find (\<lambda>comment. includes_str (body comment) bot_marker)
              (filter (on_issue owner repo n) (comments gh)) = None"
    using f by (simp add: pr_comments_def is_bot_comment_def [abs_def])
  show ?thesis
    by (simp add: commentOnPR_def octokit_issues_listComments_def octokit_issues_createComment_def
        nf log_call_def Let_def f' new_comment_def)
qed

lemma set_body_hit:
  "comment_owner x = owner \<Longrightarrow> comment_repo x = repo \<Longrightarrow> comment_id x = cid \<Longrightarrow>
   set_body owner repo cid b x = x\<lparr> body := b \<rparr>"
  by (simp add: set_body_def is_comment_def)

lemma set_body_cases:
  "set_body owner repo cid b x = x \<or>
   (set_body owner repo cid b x = x\<lparr> body := b \<rparr> \<and> comment_id x = cid)"
  by (simp add: set_body_def is_comment_def)

lemma is_bot_set: "includes_str b bot_marker \<Longrightarrow> is_bot_comment (x\<lparr> body := b \<rparr>)"
  by (simp add: is_bot_comment_def)

lemma find_after_update:
  assumes "find is_bot_comment cs = Some c"
    and b: "includes_str b bot_marker"
    and "\<forall>x \<in> set cs. comment_owner x = owner \<and> comment_repo x = repo"
  shows "\<exists>c'. find is_bot_comment (map (set_body owner repo (comment_id c) b) cs) = Some c'
           \<and> comment_id c' = comment_id c"
  using assms(1,3)
proof (induction cs)
  case Nil
  then show ?case by simp
next
  case (Cons x cs)
  let ?f = "set_body owner repo (comment_id c) b"
  from Cons.prems(2) have own: "comment_owner x = owner" "comment_repo x = repo"
    and rest: "\<forall>x \<in> set cs. comment_owner x = owner \<and> comment_repo x = repo"
    by simp_all
  have step: "find is_bot_comment (map ?f (x # cs))
      = (if is_bot_comment (?f x) then Some (?f x) else find is_bot_comment (map ?f cs))"
    by simp
  show ?case
  proof (cases "is_bot_comment x")
    case True
    with Cons.prems(1) have xc: "x = c" by simp
    have "?f x = x\<lparr> body := b \<rparr>"
      using own xc by (intro set_body_hit) simp_all
    then have "is_bot_comment (?f x)" "comment_id (?f x) = comment_id c"
      using b xc by (simp_all add: is_bot_set)
    then show ?thesis
      unfolding step by simp
  next
    case False
    with Cons.prems(1) have "find is_bot_comment cs = Some c" by simp
    from Cons.IH [OF this rest] obtain c' where
      c': "find is_bot_comment (map ?f cs) = Some c'" "comment_id c' = comment_id c"
      by blast
    from set_body_cases [of owner repo "comment_id c" b x]
    show ?thesis
    proof
      assume "?f x = x"
      then have "\<not> is_bot_comment (?f x)" using False by simp
      then show ?thesis unfolding step using c' by simp
    next
      assume a: "?f x = x\<lparr> body := b \<rparr> \<and> comment_id x = comment_id c"
      then have "is_bot_comment (?f x)" "comment_id (?f x) = comment_id c"
        using b by (simp_all add: is_bot_set)
      then show ?thesis unfolding step by simp
    qed
  qed
qed

lemma is_bot_after_update:
  assumes "distinct (map comment_id cs)" "c \<in> set cs" "is_bot_comment c"
    and "includes_str b bot_marker" "x \<in> set cs"
  shows "is_bot_comment (set_body owner repo (comment_id c) b x) = is_bot_comment x"
proof (cases "is_comment owner repo (comment_id c) x")
  case True
  then have "comment_id x = comment_id c" by (simp add: is_comment_def)
  with assms(1,2,5) have "x = c"
    by (meson distinct_map inj_on_def)
  with assms(3,4) True show ?thesis
    by (simp add: set_body_def is_bot_comment_def)
next
  case False
  then show ?thesis by (simp add: set_body_def)
qed

lemma length_filter_map_cong:
  "(\<And>x. x \<in> set xs \<Longrightarrow> P (f x) = P x) \<Longrightarrow> length (filter P (map f xs)) = length (filter P xs)"
  by (induction xs) auto

lemma pr_comments_owner:
  "\<forall>x \<in> set (pr_comments owner repo n gh). comment_owner x = owner \<and> comment_repo x = repo"
  by (simp add: pr_comments_def on_issue_def)

lemma pr_comments_updated:
  "comments gh1 = map (set_body o' r' cid b) (comments gh) \<Longrightarrow>
   pr_comments owner repo n gh1 = map (set_body o' r' cid b) (pr_comments owner repo n gh)"
  by (simp add: pr_comments_def pr_comments_map_set_body)

lemma second_call_found:
  assumes nf: "request_failure h = (\<lambda>c. None)"
    and ok: "store_ok gh"
    and f: "find is_bot_comment (pr_comments owner repo n gh) = Some c"
    and b: "includes_str msg bot_marker"
    and gh1: "comments gh1 = map (set_body owner repo (comment_id c) msg) (comments gh)"
  shows "\<exists>gh2. commentOnPR h owner repo n msg gh1 = (Inr (), gh2)
           \<and> comments gh2 = comments gh1
           \<and> length (bot_comments owner repo n gh2) = max 1 (length (bot_comments owner repo n gh))"
proof -
  let ?f = "set_body owner repo (comment_id c) msg"
  have pr1: "pr_comments owner repo n gh1 = map ?f (pr_comments owner repo n gh)"
    using gh1 by (rule pr_comments_updated)
  from find_after_update [OF f b pr_comments_owner] obtain c' where
    c': "find is_bot_comment (pr_comments owner repo n gh1) = Some c'" "comment_id c' = comment_id c"
    unfolding pr1 by blast
  from commentOnPR_found [OF nf c'(1), of msg] obtain gh2 where
    gh2: "commentOnPR h owner repo n msg gh1 = (Inr (), gh2)"
      "comments gh2 = map ?f (comments gh1)"
    unfolding c'(2) by blast
  have same: "comments gh2 = comments gh1"
    unfolding gh2(2) gh1 by (simp add: set_body_idem)
  from f have cin: "c \<in> set (pr_comments owner repo n gh)" "is_bot_comment c"
    by (auto simp: find_Some_iff)
  then have cin': "c \<in> set (comments gh)" by (simp add: pr_comments_def)
  have d: "distinct (map comment_id (comments gh))"
    using ok by (simp add: store_ok_def)
  have "pr_comments owner repo n gh2 = map ?f (pr_comments owner repo n gh)"
    using same pr1 by (simp add: pr_comments_def)
  then have "length (bot_comments owner repo n gh2)
      = length (filter is_bot_comment (map ?f (pr_comments owner repo n gh)))"
    by (simp add: bot_comments_def)
  also have "\<dots> = length (filter is_bot_comment (pr_comments owner repo n gh))"
  proof (rule length_filter_map_cong)
    fix x assume "x \<in> set (pr_comments owner repo n gh)"
    then have "x \<in> set (comments gh)" by (simp add: pr_comments_def)
    with d cin' cin(2) b show "is_bot_comment (?f x) = is_bot_comment x"
      by (intro is_bot_after_update)
  qed
  also have "\<dots> = length (bot_comments owner repo n gh)"
    by (simp add: bot_comments_def)
  finally have len: "length (bot_comments owner repo n gh2) = length (bot_comments owner repo n gh)" .
  have "c \<in> set (bot_comments owner repo n gh)"
    using cin by (simp add: bot_comments_def)
  then have "1 \<le> length (bot_comments owner repo n gh)"
    by (cases "bot_comments owner repo n gh") simp_all
  with len have "length (bot_comments owner repo n gh2) = max 1 (length (bot_comments owner repo n gh))"
    by simp
  with gh2(1) same show ?thesis by blast
qed

lemma second_call_created:
  assumes nf: "request_failure h = (\<lambda>c. None)"
    and ok: "store_ok gh"
    and f: "find is_bot_comment (pr_comments owner repo n gh) = None"
    and b: "includes_str msg bot_marker"
    and gh1: "comments gh1 = comments gh @ [new_comment owner repo n (next_comment_id gh) msg]"
  shows "\<exists>gh2. commentOnPR h owner repo n msg gh1 = (Inr (), gh2)
           \<and> comments gh2 = comments gh1
           \<and> length (bot_comments owner repo n gh2) = max 1 (length (bot_comments owner repo n gh))"
proof -
  let ?new = "new_comment owner repo n (next_comment_id gh) msg"
  have new: "on_issue owner repo n ?new" "is_bot_comment ?new" "comment_id ?new = next_comment_id gh"
    "is_comment owner repo (next_comment_id gh) ?new" "?new\<lparr> body := msg \<rparr> = ?new"
    using b by (simp_all add: new_comment_def on_issue_def is_bot_comment_def is_comment_def)
  have pr1: "pr_comments owner repo n gh1 = pr_comments owner repo n gh @ [?new]"
    using gh1 new(1) by (simp add: pr_comments_def)
  have f1: "find is_bot_comment (pr_comments owner repo n gh1) = Some ?new"
    unfolding pr1 using f new(2) by (simp add: find_append_if)
  from commentOnPR_found [OF nf f1, of msg] obtain gh2 where
    gh2: "commentOnPR h owner repo n msg gh1 = (Inr (), gh2)"
      "comments gh2 = map (set_body owner repo (next_comment_id gh) msg) (comments gh1)"
    unfolding new(3) by blast
  have old: "map (set_body owner repo (next_comment_id gh) msg) (comments gh) = comments gh"
  proof (rule map_idI)
    fix x assume "x \<in> set (comments gh)"
    with ok have "comment_id x < next_comment_id gh" by (simp add: store_ok_def)
    then show "set_body owner repo (next_comment_id gh) msg x = x"
      by (simp add: set_body_def is_comment_def)
  qed
  have same: "comments gh2 = comments gh1"
    unfolding gh2(2) gh1 using old new(4,5) by (simp add: set_body_def)
  from f have none: "filter is_bot_comment (pr_comments owner repo n gh) = []"
    by (simp add: find_None_iff filter_empty_conv)
  have "pr_comments owner repo n gh2 = pr_comments owner repo n gh @ [?new]"
    using same pr1 by (simp add: pr_comments_def)
  then have "length (bot_comments owner repo n gh2) = 1"
    using none new(2) by (simp add: bot_comments_def)
  moreover have "length (bot_comments owner repo n gh) = 0"
    using none by (simp add: bot_comments_def)
  ultimately have "length (bot_comments owner repo n gh2) = max 1 (length (bot_comments owner repo n gh))"
    by simp
  with gh2(1) same show ?thesis by blast
qed

lemma includes_str_prefix: "includes_str (p @ s) p"
proof (cases "p @ s")
  case Nil
  then show ?thesis by simp
next
  case (Cons a l)
  have "startsWith (p @ s) p" by (rule startsWith_append)
  then show ?thesis by (simp add: Cons)
qed

lemma generatePRReport_marked: "includes_str (generatePRReport h a p f) bot_marker"
proof -
  have "\<exists>rest. generatePRReport h a p f = bot_marker @ rest"
    by (simp add: generatePRReport_def bot_marker_def)
  then show ?thesis
    using includes_str_prefix by auto
qed

lemma store_ok_empty: "store_ok empty_github"
  by (simp add: store_ok_def empty_github_def)

lemma failure_comment_unmarked: "\<not> includes_str (failure_comment (Error ''boom'')) bot_marker"
  by (simp add: failure_comment_def bot_marker_def robot_face_def cross_mark_def wrench_def newline_def)

lemma quoting_comment_marked:
  "includes_str (body quoting_comment) bot_marker" "\<not> startsWith (body quoting_comment) bot_marker"
  by (simp_all add: quoting_comment_def bot_marker_def robot_face_def)

lemma constructor_secret_nonempty: "constructor_secret env_secret \<noteq> []"
  by (simp add: constructor_secret_def split: option.splits)

lemma verify_expected:
  "verifyWebhookSignature h payload s =
     (if length s \<noteq> length (expected_signature h payload)
      then Inl (RangeError ''Input buffers must have the same byte length'')
      else Inr (s = expected_signature h payload))"
  by (simp add: verify_eq expected_signature_def length_digest_hex)

lemma example_digest_opened:
  "digest_hex (example_mac ''s3cret'' ''opened PR 7'')
     = ''00000000000000000000000000000000000000000000000000000000000004ef''"
  by code_simp

subsection \<open>Project type detection\<close>

text \<open>
  C10: \<open>detectProjectType\<close> never throws: for every runtime and path it returns one of
  \<^verbatim>\<open>'nodejs'\<close>, \<^verbatim>\<open>'python'\<close>, \<^verbatim>\<open>'general'\<close>; when the directory cannot be read (the
  \<^verbatim>\<open>readdirSync\<close> call throws) the exception is caught and \<^verbatim>\<open>'general'\<close> is returned.
\<close>

theorem detectProjectType_total:
  "detectProjectType rt p \<in> {Inr ''nodejs'', Inr ''python'', Inr ''general''}
   \<and> (\<forall>e. readdirSync rt p = Inl e \<longrightarrow> detectProjectType rt p = Inr ''general'')"
  by (auto simp: detectProjectType_def try_catch_def split: sum.splits)

theorem detectProjectType_total_witness:
  "readdirSync example_rt ''/missing''
     = Inl (Error (''ENOENT: no such file or directory, scandir '' @ apos @ ''/missing'' @ apos))
   \<and> detectProjectType example_rt ''/missing'' = Inr ''general''
   \<and> detectProjectType example_rt ''/proj'' = Inr ''nodejs''"
proof -
  have r: "readdirSync example_rt ''/missing''
     = Inl (Error (''ENOENT: no such file or directory, scandir '' @ apos @ ''/missing'' @ apos))"
    by (simp add: example_rt_def)
  have n: "detectProjectType example_rt ''/proj'' = Inr ''nodejs''"
    by (simp add: detectProjectType_def try_catch_def example_rt_def)
  from detectProjectType_total [of example_rt "''/missing''"] r n show ?thesis by blast
qed

subsection \<open>Rule merging\<close>

text \<open>
  C4: when the general rule file holds the rule set \<open>base\<close> and the category's rule file
  holds \<open>cat\<close>, \<open>loadRules\<close> returns a rule set whose keys are the union of their keys;
  every key of \<open>cat\<close>, so every key present in both, has exactly \<open>cat\<close>'s value (the
  whole namespace is replaced), and every other key has \<open>base\<close>'s value.
\<close>

theorem loadRules_merge:
  assumes "existsSync rt (generalRulesPath rt)"
    and "read_json rt (generalRulesPath rt) = Inr base"
    and "existsSync rt (rulesPath rt category)"
    and "read_json rt (rulesPath rt category) = Inr cat"
  shows "\<exists>merged. loadRules rt category = Inr merged
           \<and> dom merged = dom base \<union> dom cat
           \<and> (\<forall>k \<in> dom base \<inter> dom cat. merged k = cat k)
           \<and> (\<forall>k \<in> dom cat. merged k = cat k)
           \<and> (\<forall>k. k \<notin> dom cat \<longrightarrow> merged k = base k)"
proof -
  have "loadRules rt category = Inr (base ++ cat)"
    using assms by (simp add: loadRules_def load_general_def load_project_def try_catch_def)
  moreover have "dom (base ++ cat) = dom base \<union> dom cat" by auto
  moreover have "\<forall>k \<in> dom cat. (base ++ cat) k = cat k" by (auto simp: map_add_def)
  moreover have "\<forall>k. k \<notin> dom cat \<longrightarrow> (base ++ cat) k = base k"
    by (auto simp: map_add_def split: option.splits)
  ultimately show ?thesis by auto
qed

theorem loadRules_merge_witness:
  "\<exists>merged. loadRules example_rt ''nodejs'' = Inr merged
     \<and> dom merged = dom readme_general_rules \<union> dom readme_nodejs_rules
     \<and> (\<forall>k \<in> dom readme_general_rules \<inter> dom readme_nodejs_rules. merged k = readme_nodejs_rules k)
     \<and> (\<forall>k \<in> dom readme_nodejs_rules. merged k = readme_nodejs_rules k)
     \<and> (\<forall>k. k \<notin> dom readme_nodejs_rules \<longrightarrow> merged k = readme_general_rules k)"
proof -
  have 1: "existsSync example_rt (generalRulesPath example_rt)"
    by (simp add: generalRulesPath_def example_rt_def)
  have 2: "existsSync example_rt (rulesPath example_rt ''nodejs'')"
    by (simp add: rulesPath_def example_rt_def)
  show ?thesis
    by (rule loadRules_merge [OF 1 example_general 2 example_nodejs])
qed

subsection \<open>The gitignore analyzer without a .gitignore\<close>

text \<open>
  C9: when the project directory has no \<^verbatim>\<open>.gitignore\<close>, the gitignore analyzer returns
  (it does not throw) a result whose failed list is exactly the one
  \<^verbatim>\<open>gitignore-exists\<close> finding and whose passed and warnings lists are empty, whatever
  the rules: no content rule is checked.
\<close>

theorem gitignore_absent:
  assumes "\<not> existsSync rt (path_join rt [p, ''.gitignore''])"
  shows "\<exists>r. GitignoreAnalyzer_analyze rt p rules = Inr r
           \<and> failed r = [gitignore_missing] \<and> rule gitignore_missing = ''gitignore-exists''
           \<and> passed r = [] \<and> warnings r = []"
  using assms
  by (simp add: GitignoreAnalyzer_analyze_def Let_def push_failed_def new_results_def gitignore_missing_def)

theorem gitignore_absent_witness:
  "\<not> existsSync example_rt (path_join example_rt [''/proj'', ''.gitignore''])
   \<and> (\<exists>r. GitignoreAnalyzer_analyze example_rt ''/proj'' readme_nodejs_rules = Inr r
           \<and> failed r = [gitignore_missing] \<and> rule gitignore_missing = ''gitignore-exists''
           \<and> passed r = [] \<and> warnings r = [])"
proof -
  have h: "\<not> existsSync example_rt (path_join example_rt [''/proj'', ''.gitignore''])"
    by (simp add: example_rt_def)
  from gitignore_absent [OF h] h show ?thesis by blast
qed

subsection \<open>The environment-files analyzer on a committed .env\<close>

text \<open>
  C6 (the code departs from the claim): in \<^verbatim>\<open>/proj\<close>, whose root holds a file named
  \<^verbatim>\<open>.env\<close>, the environment-files analyzer returns two failed findings for \<^verbatim>\<open>.env\<close>, not
  one, under the README's rules and under the built-in default list alike: the name is
  pushed once because it is in the prohibited list and once more because it starts with
  \<^verbatim>\<open>.env\<close>. No passed finding for \<^verbatim>\<open>no-env-files-committed\<close> is produced.
\<close>

theorem env_file_reported_twice:
  "EnvAnalyzer_analyze example_rt ''/proj'' (readme_general_rules ++ readme_nodejs_rules)
     = Inr \<lparr> analyzer = ''Environment Files Analyzer'', passed = [],
             failed = [env_file_committed ''.env'', env_file_committed ''.env''],
             warnings = [env_example_recommended] \<rparr>
   \<and> EnvAnalyzer_analyze example_rt ''/proj'' Map.empty
     = Inr \<lparr> analyzer = ''Environment Files Analyzer'', passed = [],
             failed = [env_file_committed ''.env'', env_file_committed ''.env''],
             warnings = [env_example_recommended] \<rparr>"
  by (simp add: EnvAnalyzer_analyze_def findEnvFiles_def findEnvFiles_step_def prohibitedEnvFiles_def
      default_prohibitedFiles_def readme_general_rules_def readme_nodejs_rules_def example_rt_def
      new_results_def push_failed_def push_passed_def push_warning_def Let_def map_add_def)

subsection \<open>Isolation of a failing analyzer\<close>




subsection \<open>The closing section of the report\<close>

text \<open>
  C7 (as amended): the text of \<open>generateReport\<close> ends with the "General Recommendations"
  section if and only if some entry of the report has a truthy \<^verbatim>\<open>error\<close>, or a failed
  finding, or a warning finding. An analyzer's error is a critical issue of the report
  and brings the section with it.
\<close>

theorem recommendations_iff:
  "endsWith (generateReport rt r) general_recommendations
     \<longleftrightarrow> (\<exists>a \<in> set (analyzers r). truthy (error a) \<or> failed a \<noteq> [] \<or> warnings a \<noteq> [])"
proof -
  let ?c = "concat (map critical_lines_of (analyzers r))"
  let ?w = "concat (map warning_lines_of (analyzers r))"
  have gen: "generateReport rt r = report_sections rt r
      @ (if ?c \<noteq> [] \<or> ?w \<noteq> [] then general_recommendations else [])"
    by (simp add: generateReport_def collect_lines_eq)
  have cond: "(?c \<noteq> [] \<or> ?w \<noteq> [])
     \<longleftrightarrow> (\<exists>a \<in> set (analyzers r). truthy (error a) \<or> failed a \<noteq> [] \<or> warnings a \<noteq> [])"
    by (auto simp: critical_lines_of_empty warning_lines_of_empty)
  obtain b where b: "report_sections rt r = b @ newline @ newline"
    using report_sections_end by blast
  show ?thesis
  proof (cases "?c \<noteq> [] \<or> ?w \<noteq> []")
    case True
    then have "endsWith (generateReport rt r) general_recommendations"
      by (simp only: gen if_True endsWith_append)
    with True cond show ?thesis by blast
  next
    case False
    then have "generateReport rt r = b @ newline @ newline"
      using gen b by simp
    then have "\<not> endsWith (generateReport rt r) general_recommendations"
      by (simp only: not_endsWith_recommendations not_False_eq_True)
    with False cond show ?thesis by blast
  qed
qed

theorem recommendations_iff_witness:
  "endsWith (generateReport example_rt clean_report) general_recommendations
   \<and> (\<exists>a \<in> set (analyzers clean_report). truthy (error a))"
proof -
  have "\<exists>a \<in> set (analyzers clean_report). truthy (error a)"
    by (simp add: clean_report_def apos_def)
  then show ?thesis
    using recommendations_iff [of example_rt clean_report] by blast
qed

text \<open>
  C7 as stated fails on the report of \<^verbatim>\<open>/clean\<close>: it has no failed and no warning finding
  at all, and its text contains, and ends with, the section.
\<close>

theorem recommendations_without_findings:
  "endsWith (generateReport example_rt clean_report) general_recommendations
   \<and> includes_str (generateReport example_rt clean_report) general_recommendations
   \<and> concat (map failed (analyzers clean_report)) = []
   \<and> concat (map warnings (analyzers clean_report)) = []"
proof -
  have gen: "generateReport example_rt clean_report
      = report_sections example_rt clean_report @ general_recommendations"
    by (simp add: generateReport_def collect_lines_def collect_entry_def clean_report_def apos_def)
  have "concat (map failed (analyzers clean_report)) = []"
    "concat (map warnings (analyzers clean_report)) = []"
    by (simp_all add: clean_report_def)
  then show ?thesis
    by (simp only: gen endsWith_append includes_str_append simp_thms)
qed

subsection \<open>What the signature comparison decides\<close>

text \<open>
  The MAC is a parameter of the model. On the header made from the MAC of the body,
  \<open>verifyWebhookSignature\<close> returns true; with one character of the hex digest replaced
  by another it returns false; and on the header made for another body it returns whether
  the two bodies have the same MAC.
\<close>

lemma verify_accepts:
  "verifyWebhookSignature h payload
       (''sha256='' @ digest_hex (hmac_sha256 h (webhookSecret h) payload)) = Inr True"
  by (simp add: verify_eq length_digest_hex)

lemma verify_digest_mutation:
  assumes "i < 64" and "c \<noteq> digest_hex (hmac_sha256 h (webhookSecret h) payload) ! i"
  shows "verifyWebhookSignature h payload
              (''sha256='' @ (digest_hex (hmac_sha256 h (webhookSecret h) payload))[i := c])
            = Inr False"
proof -
  let ?d = "digest_hex (hmac_sha256 h (webhookSecret h) payload)"
  from assms have "?d[i := c] ! i \<noteq> ?d ! i"
    by (simp add: length_digest_hex)
  then have "?d[i := c] \<noteq> ?d" by metis
  then show ?thesis
    by (simp add: verify_eq length_digest_hex)
qed

lemma verify_other_body:
  "verifyWebhookSignature h payload'
       (''sha256='' @ digest_hex (hmac_sha256 h (webhookSecret h) payload))
     = Inr (hmac_sha256 h (webhookSecret h) payload = hmac_sha256 h (webhookSecret h) payload')"
  using digest_hex_inj [of "hmac_sha256 h (webhookSecret h) payload"
      "hmac_sha256 h (webhookSecret h) payload'"]
  by (auto simp: verify_eq length_digest_hex)

subsection \<open>The event filter\<close>

text \<open>
  C8: a delivery whose event type is \<^verbatim>\<open>pull_request\<close> and whose parsed action is none of
  \<^verbatim>\<open>opened\<close>, \<^verbatim>\<open>synchronize\<close>, \<^verbatim>\<open>reopened\<close> leaves GitHub as it was: no request is sent
  (no analysis runs) and no comment is created or updated. \<open>handlePullRequestEvent\<close>
  returns without throwing, and the delivery, once past the signature check, is answered
  with status 200.
\<close>

theorem irrelevant_action_dropped:
  assumes "header_event req = Some ''pull_request''"
    and "JSON_parse_payload h (raw_body req) = Inr (Some p)"
    and "action p \<notin> {Some ''opened'', Some ''synchronize'', Some ''reopened''}"
  shows "handlePullRequestEvent h (Some p) gh = (Inr (), gh)
     \<and> snd (handleWebhook h req gh) = gh
     \<and> (signature_check h req = Inr True \<longrightarrow> handleWebhook h req gh = (processed, gh))
     \<and> status processed = 200"
proof -
  have skip: "handlePullRequestEvent h (Some p) gh = (Inr (), gh)"
    using assms(3) by (simp add: handlePullRequestEvent_def is_relevant_iff)
  have "snd (handleWebhook h req gh) = gh"
    using assms(1,2) skip by (simp add: handleWebhook_def split: sum.splits bool.splits)
  moreover have "signature_check h req = Inr True \<longrightarrow> handleWebhook h req gh = (processed, gh)"
    using assms(1,2) skip by (simp add: handleWebhook_def)
  ultimately show ?thesis
    using skip by (simp add: processed_def)
qed

theorem irrelevant_action_dropped_witness:
  "header_event signed_closed = Some ''pull_request''
   \<and> JSON_parse_payload example_handler (raw_body signed_closed) = Inr (Some (example_payload ''closed''))
   \<and> action (example_payload ''closed'') \<notin> {Some ''opened'', Some ''synchronize'', Some ''reopened''}
   \<and> signature_check example_handler signed_closed = Inr True
   \<and> handleWebhook example_handler signed_closed empty_github = (processed, empty_github)
   \<and> status processed = 200"
proof -
  have h1: "header_event signed_closed = Some ''pull_request''"
    by (simp add: signed_closed_def)
  have h2: "JSON_parse_payload example_handler (raw_body signed_closed)
      = Inr (Some (example_payload ''closed''))"
    by (simp add: signed_closed_def example_handler_def)
  have h3: "action (example_payload ''closed'') \<notin> {Some ''opened'', Some ''synchronize'', Some ''reopened''}"
    by (simp add: example_payload_def)
  from irrelevant_action_dropped [OF h1 h2 h3, of empty_github] h1 h2 h3 example_signed_closed_check
  show ?thesis by blast
qed

subsection \<open>The signature check of handleWebhook\<close>

text \<open>
  C1 (as amended): the secret of a constructed handler is never empty (without
  \<^verbatim>\<open>WEBHOOK_SECRET\<close> it is a placeholder). A delivery whose signature header is present and
  not empty but is not the expected value is not processed: GitHub is left as it was and
  the answer is not 200; when the header has the length of the expected value, the answer
  is 401. The verification is skipped exactly when the header is missing or empty, and
  the delivery then goes on as if it were verified.
\<close>

theorem signature_gate:
  assumes "webhookSecret h = constructor_secret env_secret"
  shows "(\<forall>s. header_signature req = Some s \<and> s \<noteq> [] \<and> s \<noteq> expected_signature h (raw_body req)
            \<longrightarrow> snd (handleWebhook h req gh) = gh
              \<and> status (fst (handleWebhook h req gh)) \<noteq> 200
              \<and> (length s = length (expected_signature h (raw_body req))
                    \<longrightarrow> handleWebhook h req gh = (unauthorized, gh) \<and> status unauthorized = 401))
     \<and> (header_signature req = None \<or> header_signature req = Some []
            \<longrightarrow> signature_check h req = Inr True)
     \<and> (\<forall>s. header_signature req = Some s \<and> s \<noteq> []
            \<longrightarrow> signature_check h req = verifyWebhookSignature h (raw_body req) s)"
proof -
  have secret: "webhookSecret h \<noteq> []"
    using assms by (simp add: constructor_secret_nonempty)
  have skipped: "header_signature req = None \<or> header_signature req = Some []
            \<longrightarrow> signature_check h req = Inr True"
    by (auto simp: signature_check_def)
  have checked: "\<forall>s. header_signature req = Some s \<and> s \<noteq> []
            \<longrightarrow> signature_check h req = verifyWebhookSignature h (raw_body req) s"
    using secret by (simp add: signature_check_def)
  have rejected: "snd (handleWebhook h req gh) = gh
              \<and> status (fst (handleWebhook h req gh)) \<noteq> 200
              \<and> (length s = length (expected_signature h (raw_body req))
                    \<longrightarrow> handleWebhook h req gh = (unauthorized, gh) \<and> status unauthorized = 401)"
    if s: "header_signature req = Some s \<and> s \<noteq> [] \<and> s \<noteq> expected_signature h (raw_body req)" for s
  proof -
    from s checked have c: "signature_check h req = verifyWebhookSignature h (raw_body req) s"
      by blast
    show ?thesis
    proof (cases "length s = length (expected_signature h (raw_body req))")
      case True
      with s have "signature_check h req = Inr False"
        by (simp add: c verify_expected)
      then show ?thesis
        by (simp add: handleWebhook_def unauthorized_def)
    next
      case False
      then have "signature_check h req = Inl (RangeError ''Input buffers must have the same byte length'')"
        by (simp add: c verify_expected)
      with False show ?thesis
        by (simp add: handleWebhook_def internal_error_def)
    qed
  qed
  from rejected skipped checked show ?thesis by blast
qed

theorem signature_gate_witness:
  "webhookSecret example_handler = constructor_secret (Some ''s3cret'')
   \<and> header_signature forged_opened
       = Some ''sha256=0000000000000000000000000000000000000000000000000000000000000000''
   \<and> ''sha256=0000000000000000000000000000000000000000000000000000000000000000''
       \<noteq> expected_signature example_handler (raw_body forged_opened)
   \<and> length ''sha256=0000000000000000000000000000000000000000000000000000000000000000''
       = length (expected_signature example_handler (raw_body forged_opened))
   \<and> handleWebhook example_handler forged_opened empty_github = (unauthorized, empty_github)
   \<and> status unauthorized = 401
   \<and> header_signature unsigned_opened = None
   \<and> signature_check example_handler unsigned_opened = Inr True"
proof -
  let ?s = "''sha256=0000000000000000000000000000000000000000000000000000000000000000''"
  have c: "webhookSecret example_handler = constructor_secret (Some ''s3cret'')"
    by (simp add: example_handler_def)
  have e: "expected_signature example_handler (raw_body forged_opened)
      = ''sha256=00000000000000000000000000000000000000000000000000000000000004ef''"
    by (simp add: expected_signature_def example_secret example_hmac forged_opened_def
        example_digest_opened)
  have h: "header_signature forged_opened = Some ?s"
    by (simp add: forged_opened_def)
  have n: "?s \<noteq> []" "?s \<noteq> expected_signature example_handler (raw_body forged_opened)"
    "length ?s = length (expected_signature example_handler (raw_body forged_opened))"
    by (simp_all add: e)
  have u: "header_signature unsigned_opened = None"
    by (simp add: unsigned_opened_def)
  note g1 = signature_gate [OF c, of forged_opened empty_github]
  note g2 = signature_gate [OF c, of unsigned_opened empty_github]
  from g1 h n have "handleWebhook example_handler forged_opened empty_github = (unauthorized, empty_github)"
    "status unauthorized = 401"
    by blast+
  moreover from g2 u have "signature_check example_handler unsigned_opened = Inr True"
    by blast
  ultimately show ?thesis
    using c h n u by blast
qed

text \<open>
  C1 as stated fails on a delivery without the signature header: the handler's secret is
  configured, the \<^verbatim>\<open>pull_request\<close>/\<^verbatim>\<open>opened\<close> delivery is not rejected but answered with
  status 200 after four requests to GitHub, one of which created a comment. And a header
  of another length than the expected value makes \<open>timingSafeEqual\<close> throw: the answer is
  500, not 401.
\<close>

theorem unsigned_delivery_processed:
  "webhookSecret example_handler = ''s3cret''
   \<and> header_signature unsigned_opened = None
   \<and> fst (handleWebhook example_handler unsigned_opened empty_github) = processed
   \<and> map comment_id (comments (snd (handleWebhook example_handler unsigned_opened empty_github))) = [1]
   \<and> length (calls (snd (handleWebhook example_handler unsigned_opened empty_github))) = 4
   \<and> handleWebhook example_handler short_signature_opened empty_github
       = (internal_error, empty_github)"
proof -
  obtain r msg where a: "analyzePR example_handler ''octo'' ''demo'' 7 empty_github
     = (Inr r, \<lparr> comments = [\<lparr> comment_owner = ''octo'', comment_repo = ''demo'', issue_number = 7,
                    comment_id = 1, body = msg \<rparr>],
          next_comment_id = 2,
          calls = [Pulls_get ''octo'' ''demo'' 7, Pulls_listFiles ''octo'' ''demo'' 7,
                   Issues_listComments ''octo'' ''demo'' 7, Issues_createComment ''octo'' ''demo'' 7 msg] \<rparr>)"
    using example_analyzePR by blast
  have u: "header_signature unsigned_opened = None"
    "header_event unsigned_opened = Some ''pull_request''"
    "raw_body unsigned_opened = ''opened PR 7''"
    by (simp_all add: unsigned_opened_def)
  have p: "JSON_parse_payload example_handler ''opened PR 7''
      = Inr (Some (example_payload ''opened''))"
    by (simp add: example_handler_def)
  have e: "handlePullRequestEvent example_handler (Some (example_payload ''opened'')) empty_github
      = (Inr (), snd (analyzePR example_handler ''octo'' ''demo'' 7 empty_github))"
    by (simp add: handlePullRequestEvent_def is_relevant_iff example_payload_def a)
  have w: "handleWebhook example_handler unsigned_opened empty_github
      = (processed, snd (analyzePR example_handler ''octo'' ''demo'' 7 empty_github))"
    by (simp add: handleWebhook_def signature_check_def u p e)
  have s: "handleWebhook example_handler short_signature_opened empty_github
       = (internal_error, empty_github)"
    by (rule handleWebhook_wrong_length [where s = "''sha256=00''"])
       (simp_all add: short_signature_opened_def example_secret)
  show ?thesis
    by (simp add: w a s u example_secret)
qed

subsection \<open>The comment upsert\<close>

text \<open>
  C2 (as amended): when no request fails and the comment ids of the store are distinct
  and below the next id, \<open>commentOnPR\<close> returns, and it looks for the first comment of
  the pull request whose body contains the marker anywhere: if there is one, exactly the
  comment with its id gets the new body (no comment is added, every id is kept);
  otherwise one comment with the new body and a fresh id is appended. When the body
  itself contains the marker, a second call with the same body leaves the comments as
  the first call left them, and the number of marked comments of the pull request is
  then the number before, or one if there was none.
\<close>

theorem commentOnPR_upsert:
  assumes "request_failure h = (\<lambda>c. None)" and "store_ok gh"
  shows "\<exists>gh1. commentOnPR h owner repo n msg gh = (Inr (), gh1)
     \<and> (case find is_bot_comment (pr_comments owner repo n gh) of
          Some c \<Rightarrow> comments gh1 = map (set_body owner repo (comment_id c) msg) (comments gh)
        | None \<Rightarrow> comments gh1 = comments gh @ [new_comment owner repo n (next_comment_id gh) msg])
     \<and> (includes_str msg bot_marker \<longrightarrow>
          (\<exists>gh2. commentOnPR h owner repo n msg gh1 = (Inr (), gh2)
             \<and> comments gh2 = comments gh1
             \<and> length (bot_comments owner repo n gh2)
                 = max 1 (length (bot_comments owner repo n gh))))"
proof (cases "find is_bot_comment (pr_comments owner repo n gh)")
  case None
  from commentOnPR_not_found [OF assms(1) None, of msg] obtain gh1 where
    gh1: "commentOnPR h owner repo n msg gh = (Inr (), gh1)"
      "comments gh1 = comments gh @ [new_comment owner repo n (next_comment_id gh) msg]"
    by blast
  have "includes_str msg bot_marker \<longrightarrow>
          (\<exists>gh2. commentOnPR h owner repo n msg gh1 = (Inr (), gh2)
             \<and> comments gh2 = comments gh1
             \<and> length (bot_comments owner repo n gh2)
                 = max 1 (length (bot_comments owner repo n gh)))"
    using second_call_created [OF assms None _ gh1(2)] by blast
  with gh1 None show ?thesis by simp
next
  case (Some c)
  from commentOnPR_found [OF assms(1) Some, of msg] obtain gh1 where
    gh1: "commentOnPR h owner repo n msg gh = (Inr (), gh1)"
      "comments gh1 = map (set_body owner repo (comment_id c) msg) (comments gh)"
    by blast
  have "includes_str msg bot_marker \<longrightarrow>
          (\<exists>gh2. commentOnPR h owner repo n msg gh1 = (Inr (), gh2)
             \<and> comments gh2 = comments gh1
             \<and> length (bot_comments owner repo n gh2)
                 = max 1 (length (bot_comments owner repo n gh)))"
    using second_call_found [OF assms Some _ gh1(2)] by blast
  with gh1 Some show ?thesis by simp
qed


theorem commentOnPR_upsert_witness:
  "request_failure example_handler = (\<lambda>c. None)
   \<and> store_ok empty_github
   \<and> includes_str (generatePRReport example_handler (analyzeFiles [''.env''])
         \<lparr> title = ''Add config'', head_sha = ''0123456789abcdef'' \<rparr> [''.env'']) bot_marker
   \<and> (\<exists>gh1. commentOnPR example_handler ''octo'' ''demo'' 7
         (generatePRReport example_handler (analyzeFiles [''.env''])
            \<lparr> title = ''Add config'', head_sha = ''0123456789abcdef'' \<rparr> [''.env'']) empty_github
         = (Inr (), gh1)
       \<and> length (comments gh1) = 1
       \<and> (\<exists>gh2. commentOnPR example_handler ''octo'' ''demo'' 7
             (generatePRReport example_handler (analyzeFiles [''.env''])
                \<lparr> title = ''Add config'', head_sha = ''0123456789abcdef'' \<rparr> [''.env'']) gh1
             = (Inr (), gh2)
           \<and> comments gh2 = comments gh1
           \<and> length (bot_comments ''octo'' ''demo'' 7 gh2) = 1))"
proof -
  let ?msg = "generatePRReport example_handler (analyzeFiles [''.env''])
         \<lparr> title = ''Add config'', head_sha = ''0123456789abcdef'' \<rparr> [''.env'']"
  have m: "includes_str ?msg bot_marker" by (rule generatePRReport_marked)
  have e: "find is_bot_comment (pr_comments ''octo'' ''demo'' 7 empty_github) = None"
    "bot_comments ''octo'' ''demo'' 7 empty_github = []" "comments empty_github = []"
    by (simp_all add: pr_comments_def bot_comments_def empty_github_def)
  from commentOnPR_upsert [OF example_no_failure store_ok_empty, of "''octo''" "''demo''" 7 ?msg]
  show ?thesis
    using m by (auto simp: e example_no_failure store_ok_empty)
qed

text \<open>
  C2 as stated fails twice. The search is for a body that contains the marker, not one
  that starts with it: in a store whose only comment quotes the marker in the middle of
  its body, no comment starts with the marker, yet no comment is created; the quoting
  comment is overwritten. And a body without the marker is not recognized afterwards:
  the failure comment of \<open>handlePullRequestEvent\<close> posted twice gives two comments.
\<close>

theorem commentOnPR_claim_counterexample:
  "\<not> startsWith (body quoting_comment) bot_marker
   \<and> comments (snd (commentOnPR example_handler ''octo'' ''demo'' 7 (bot_marker @ '' v2'') quoted_github))
       = [quoting_comment\<lparr> body := bot_marker @ '' v2'' \<rparr>]
   \<and> map comment_id (comments (snd (commentOnPR example_handler ''octo'' ''demo'' 7
         (failure_comment (Error ''boom''))
         (snd (commentOnPR example_handler ''octo'' ''demo'' 7
            (failure_comment (Error ''boom'')) empty_github)))))
       = [1, 2]"
proof -
  have q: "find is_bot_comment (pr_comments ''octo'' ''demo'' 7 quoted_github) = Some quoting_comment"
    using quoting_comment_marked(1)
    by (simp add: pr_comments_def quoted_github_def on_issue_def is_bot_comment_def)
       (simp add: quoting_comment_def)
  from commentOnPR_found [OF example_no_failure q, of "bot_marker @ '' v2''"]
  have 1: "comments (snd (commentOnPR example_handler ''octo'' ''demo'' 7 (bot_marker @ '' v2'') quoted_github))
       = [quoting_comment\<lparr> body := bot_marker @ '' v2'' \<rparr>]"
    by (auto simp: quoted_github_def set_body_def is_comment_def) (simp_all add: quoting_comment_def)
  let ?fc = "failure_comment (Error ''boom'')"
  have e: "find is_bot_comment (pr_comments ''octo'' ''demo'' 7 empty_github) = None"
    by (simp add: pr_comments_def empty_github_def)
  from commentOnPR_not_found [OF example_no_failure e, of ?fc] obtain gh1 where
    gh1: "commentOnPR example_handler ''octo'' ''demo'' 7 ?fc empty_github = (Inr (), gh1)"
      "comments gh1 = [new_comment ''octo'' ''demo'' 7 1 ?fc]" "next_comment_id gh1 = 2"
    by (auto simp: empty_github_def)
  have e1: "find is_bot_comment (pr_comments ''octo'' ''demo'' 7 gh1) = None"
    using failure_comment_unmarked
    by (simp add: pr_comments_def gh1(2) new_comment_def on_issue_def is_bot_comment_def)
  from commentOnPR_not_found [OF example_no_failure e1, of ?fc] obtain gh2 where
    gh2: "commentOnPR example_handler ''octo'' ''demo'' 7 ?fc gh1 = (Inr (), gh2)"
      "comments gh2 = [new_comment ''octo'' ''demo'' 7 1 ?fc, new_comment ''octo'' ''demo'' 7 2 ?fc]"
    by (auto simp: gh1)
  have 2: "map comment_id (comments (snd (commentOnPR example_handler ''octo'' ''demo'' 7 ?fc
         (snd (commentOnPR example_handler ''octo'' ''demo'' 7 ?fc empty_github))))) = [1, 2]"
    by (simp add: gh1(1) gh2 new_comment_def)
  from quoting_comment_marked(2) 1 2 show ?thesis by blast
qed

end
